theory Spec2Isabelle
  imports Main "HOL-Library.Sublist"
begin

section \<open>The viewer \<open>olmocr/viewer/dolmaviewer.py\<close>\<close>

text \<open>
  A shallow embedding of \<open>dolmaviewer.py\<close>: Python strings are \<open>string\<close>, Python integers
  are \<open>int\<close>, a raised exception is the \<open>Inl\<close> of a sum, and everything a function does to
  the outside (temporary files, output files, printed lines, requests to the storage
  backend) is a field of an explicit \<open>world\<close> that is passed through.
\<close>

subsection \<open>Values, errors and printed lines\<close>

text \<open>
  What \<open>json.loads\<close> returns. A dictionary is the association list of its items, in
  insertion order, with distinct keys. Floating-point numbers are left out of the model.
\<close>

datatype json =
    JNull
  | JBool bool
  | JInt int
  | JStr string
  | JList "json list"
  | JDict "(string \<times> json) list"

text \<open>
  The exceptions. \<open>NoCredentialsError\<close> and \<open>PartialCredentialsError\<close> are the two classes
  the code names. \<open>RecordShapeError\<close> stands for the built-in exception (\<open>AttributeError\<close>,
  \<open>TypeError\<close>, \<open>ValueError\<close>) the interpreter raises when a value of the record has no such
  method, cannot be iterated, unpacked, sliced or used as an index.
  \<open>JSONDecodeError\<close> is what \<open>json.loads\<close> raises, and \<open>Failure\<close> is any other exception
  raised by a collaborator (storage, rasteriser, Markdown, template, file system), with
  its message. All of these are instances of \<open>Exception\<close>. \<open>BaseFailure\<close> is a failure
  that is a \<open>BaseException\<close> and not an \<open>Exception\<close> (\<open>SystemExit\<close>,
  \<open>KeyboardInterrupt\<close>), with its name.
\<close>

datatype error =
    NoCredentialsError
  | PartialCredentialsError
  | RecordShapeError
  | JSONDecodeError
  | Failure string
  | BaseFailure string

text \<open>Whether \<open>except Exception\<close> catches the failure.\<close>

definition is_Exception :: "error \<Rightarrow> bool" where
  "is_Exception e = (case e of BaseFailure name \<Rightarrow> False | _ \<Rightarrow> True)"

text \<open>
  The two \<open>print\<close> calls of the file: line 29 and line 102 (which formats the exception).
\<close>

datatype message =
    CredentialsNotFound
  | ErrorOccurred error

subsection \<open>Python string and sequence primitives\<close>

text \<open>
  \<open>s.replace(old, new)\<close>: the occurrences of \<open>old\<close> are found from the left and do not
  overlap; an empty \<open>old\<close> matches before every character and at the end.
\<close>

function str_replace :: "string \<Rightarrow> string \<Rightarrow> string \<Rightarrow> string" where
  "str_replace [] old new = (if old = [] then new else [])"
| "str_replace (c # cs) old new =
     (if old = [] then new @ c # str_replace cs old new
      else if prefix old (c # cs) then new @ str_replace (drop (length old) (c # cs)) old new
      else c # str_replace cs old new)"
  by pat_completeness auto
termination
  by (relation "measure (\<lambda>(s, old, new). length s)") auto

text \<open>\<open>s.startswith(p)\<close>.\<close>

definition startswith :: "string \<Rightarrow> string \<Rightarrow> bool" where
  "startswith s p = prefix p s"

text \<open>
  \<open>xs[start:stop]\<close> with step 1; \<open>None\<close> is an omitted bound. A negative bound counts from
  the end, and every bound is clamped to \<open>0 .. len(xs)\<close>; the slice never raises.
\<close>

definition py_slice :: "'a list \<Rightarrow> int option \<Rightarrow> int option \<Rightarrow> 'a list" where
  "py_slice xs start stop =
     (let n = int (length xs);
          lo = (case start of None \<Rightarrow> 0
                | Some i \<Rightarrow> if i < 0 then max (i + n) 0 else min i n);
          hi = (case stop of None \<Rightarrow> n
                | Some j \<Rightarrow> if j < 0 then max (j + n) 0 else min j n)
      in take (nat (hi - lo)) (drop (nat lo) xs))"

text \<open>
  \<open>html.escape(s, quote)\<close> of the standard library: five replacements, the ampersand
  first; the two quote characters only when \<open>quote\<close> is true.
\<close>

definition html_escape :: "string \<Rightarrow> bool \<Rightarrow> string" where
  "html_escape s quote =
     (let s1 = str_replace s ''&'' ''&amp;'';
          s2 = str_replace s1 ''<'' ''&lt;'';
          s3 = str_replace s2 ''>'' ''&gt;''
      in if quote
         then str_replace (str_replace s3 [CHR 0x22] ''&quot;'') [CHR 0x27] ''&#x27;''
         else s3)"

text \<open>\<open>os.path.join(a, b)\<close> on POSIX, for two components.\<close>

definition path_join :: "string \<Rightarrow> string \<Rightarrow> string" where
  "path_join a b =
     (if startswith b ''/'' then b
      else if a = [] \<or> last a = CHR ''/'' then a @ b
      else a @ ''/'' @ b)"

subsection \<open>The output file name (line 70)\<close>

text \<open>
  \<open>f'{source_file.replace("s3://", "").replace("/", "_").replace(".", "_")}.html'\<close> for a
  \<open>source_file\<close> that is a string.
\<close>

definition output_filename :: "string \<Rightarrow> string" where
  "output_filename source_file =
     str_replace (str_replace (str_replace source_file ''s3://'' '''') ''/'' ''_'') ''.'' ''_''
       @ ''.html''"

subsection \<open>Collaborators and the outside world\<close>

text \<open>
  The keyword arguments of \<open>s3_client.generate_presigned_url\<close> as the code passes them.
\<close>

record presign_request =
  ClientMethod :: string
  Bucket :: string
  Key :: string
  ExpiresIn :: int

text \<open>
  One entry of \<open>pages\<close>: the dictionary with the keys \<open>page_num\<close>, \<open>text\<close> and \<open>image\<close>.
\<close>

record page =
  page_num :: json
  page_text :: string
  page_image :: string

text \<open>
  The functions the file calls and does not define. \<open>get_s3_bytes\<close>, \<open>parse_s3_path\<close>
  (\<open>olmocr.s3_utils\<close>) and \<open>render_pdf_to_base64webp\<close> (\<open>olmocr.data.renderpdf\<close>) are
  imported; \<open>markdown\<close> is \<open>markdown2.markdown(text, extras)\<close>;
  \<open>s3_generate_presigned_url\<close> is the method of the \<open>s3_client\<close> argument;
  \<open>template_render\<close> is \<open>template.render(id, pages, s3_link)\<close> of the \<open>template\<close> argument;
  \<open>open_w\<close> says whether \<open>open(filepath, 'w')\<close> raises. Each may raise. The rasteriser is
  given the bytes of the file whose name the code passes.
\<close>

record env =
  get_s3_bytes :: "json \<Rightarrow> error + string"
  render_pdf_to_base64webp :: "string \<Rightarrow> json \<Rightarrow> error + string"
  markdown :: "string \<Rightarrow> string list \<Rightarrow> error + string"
  parse_s3_path :: "string \<Rightarrow> error + string \<times> string"
  s3_generate_presigned_url :: "presign_request \<Rightarrow> error + string"
  template_render :: "json \<Rightarrow> page list \<Rightarrow> string option \<Rightarrow> error + string"
  open_w :: "string \<Rightarrow> error option"

text \<open>
  What the code changes outside itself: the named temporary files that exist (a handle
  maps to the bytes written; closing the file deletes it), the files written under the
  output directory, the calls made to the storage client, and the lines printed.
\<close>

record world =
  tmp_files :: "nat \<rightharpoonup> string"
  tmp_next :: nat
  out_files :: "string \<rightharpoonup> string"
  presign_calls :: "presign_request list"
  stdout :: "message list"

text \<open>\<open>tempfile.NamedTemporaryFile("wb+", suffix=".pdf")\<close>: a fresh, empty, open file.\<close>

definition NamedTemporaryFile :: "world \<Rightarrow> nat \<times> world" where
  "NamedTemporaryFile w =
     (tmp_next w, w\<lparr>tmp_files := (tmp_files w)(tmp_next w \<mapsto> []), tmp_next := Suc (tmp_next w)\<rparr>)"

text \<open>\<open>local_pdf.write(b); local_pdf.flush()\<close>.\<close>

definition tmp_write :: "nat \<Rightarrow> string \<Rightarrow> world \<Rightarrow> world" where
  "tmp_write h b w =
     w\<lparr>tmp_files := (tmp_files w)(h \<mapsto> (case tmp_files w h of None \<Rightarrow> [] | Some old \<Rightarrow> old) @ b)\<rparr>"

text \<open>\<open>local_pdf.close()\<close>, which deletes the file.\<close>

definition tmp_close :: "nat \<Rightarrow> world \<Rightarrow> world" where
  "tmp_close h w = w\<lparr>tmp_files := (tmp_files w)(h := None)\<rparr>"

subsection \<open>Operations on the values of a record\<close>

text \<open>\<open>d.get(k, dflt)\<close>: only a dictionary has the method.\<close>

definition dict_get :: "json \<Rightarrow> string \<Rightarrow> json \<Rightarrow> error + json" where
  "dict_get d k dflt =
     (case d of
        JDict items \<Rightarrow> Inr (case map_of items k of None \<Rightarrow> dflt | Some v \<Rightarrow> v)
      | _ \<Rightarrow> Inl RecordShapeError)"

text \<open>
  What iterating a value yields: the elements of a list, the characters of a string,
  the keys of a dictionary; anything else is not iterable.
\<close>

definition py_iter :: "json \<Rightarrow> error + json list" where
  "py_iter v =
     (case v of
        JList xs \<Rightarrow> Inr xs
      | JStr s \<Rightarrow> Inr (map (\<lambda>c. JStr [c]) s)
      | JDict items \<Rightarrow> Inr (map (\<lambda>kv. JStr (fst kv)) items)
      | _ \<Rightarrow> Inl RecordShapeError)"

text \<open>\<open>start_index, end_index, page_num = span\<close>: exactly three elements.\<close>

definition unpack3 :: "json \<Rightarrow> error + json \<times> json \<times> json" where
  "unpack3 span =
     (case py_iter span of
        Inl e \<Rightarrow> Inl e
      | Inr [a, b, c] \<Rightarrow> Inr (a, b, c)
      | Inr _ \<Rightarrow> Inl RecordShapeError)"

text \<open>A slice bound: \<open>None\<close>, an integer, or a boolean (which is an integer).\<close>

definition slice_index :: "json \<Rightarrow> error + int option" where
  "slice_index v =
     (case v of
        JNull \<Rightarrow> Inr None
      | JInt i \<Rightarrow> Inr (Some i)
      | JBool b \<Rightarrow> Inr (Some (if b then 1 else 0))
      | _ \<Rightarrow> Inl RecordShapeError)"

text \<open>\<open>text[start_index:end_index]\<close> (line 48): strings and lists can be sliced.\<close>

definition slice_json :: "json \<Rightarrow> json \<Rightarrow> json \<Rightarrow> error + json" where
  "slice_json text start_index end_index =
     (case slice_index start_index of
        Inl e \<Rightarrow> Inl e
      | Inr a \<Rightarrow>
         (case slice_index end_index of
            Inl e \<Rightarrow> Inl e
          | Inr b \<Rightarrow>
             (case text of
                JStr s \<Rightarrow> Inr (JStr (py_slice s a b))
              | JList xs \<Rightarrow> Inr (JList (py_slice xs a b))
              | _ \<Rightarrow> Inl RecordShapeError)))"

text \<open>Truth value of a value in a condition.\<close>

definition py_truthy :: "json \<Rightarrow> bool" where
  "py_truthy v =
     (case v of
        JNull \<Rightarrow> False
      | JBool b \<Rightarrow> b
      | JInt i \<Rightarrow> i \<noteq> 0
      | JStr s \<Rightarrow> s \<noteq> []
      | JList xs \<Rightarrow> xs \<noteq> []
      | JDict items \<Rightarrow> items \<noteq> [])"

subsection \<open>\<open>generate_presigned_url\<close> (lines 22-30)\<close>

definition generate_presigned_url ::
  "env \<Rightarrow> string \<Rightarrow> string \<Rightarrow> world \<Rightarrow> (error + string option) \<times> world" where
  "generate_presigned_url s3_client bucket_name key_name w =
     (let request = \<lparr>ClientMethod = ''get_object'', Bucket = bucket_name, Key = key_name,
                      ExpiresIn = 3600 * 24 * 7 - 100\<rparr>;
          w1 = w\<lparr>presign_calls := presign_calls w @ [request]\<rparr>
      in case s3_generate_presigned_url s3_client request of
           Inr response \<Rightarrow> (Inr (Some response), w1)
         | Inl e \<Rightarrow>
            if e = NoCredentialsError \<or> e = PartialCredentialsError
            then (Inr None, w1\<lparr>stdout := stdout w1 @ [CredentialsNotFound]\<rparr>)
            else (Inl e, w1))"

text \<open>
  Modelled from the spec: the storage backend's maximum lifetime of a presigned link,
  604800 seconds (seven days). The constant is the backend's and appears nowhere in the
  program.
\<close>

definition backend_max_ttl :: int where
  "backend_max_ttl = 604800"

subsection \<open>\<open>process_document\<close> (lines 32-73)\<close>

text \<open>
  Lines 33-38: the fields read from the record, as
  \<open>(doc_id, text, pdf_page_numbers, source_file)\<close>.
\<close>

definition record_fields :: "json \<Rightarrow> error + json \<times> json \<times> json \<times> json" where
  "record_fields data =
     (case dict_get data ''id'' JNull of Inl e \<Rightarrow> Inl e | Inr doc_id \<Rightarrow>
     (case dict_get data ''text'' (JStr []) of Inl e \<Rightarrow> Inl e | Inr text \<Rightarrow>
     (case dict_get data ''attributes'' (JDict []) of Inl e \<Rightarrow> Inl e | Inr attributes \<Rightarrow>
     (case dict_get attributes ''pdf_page_numbers'' (JList []) of Inl e \<Rightarrow> Inl e
      | Inr pdf_page_numbers \<Rightarrow>
     (case dict_get data ''metadata'' (JDict []) of Inl e \<Rightarrow> Inl e | Inr metadata \<Rightarrow>
     (case dict_get metadata ''Source-File'' JNull of Inl e \<Rightarrow> Inl e | Inr source_file \<Rightarrow>
        Inr (doc_id, text, pdf_page_numbers, source_file)))))))"

text \<open>
  Lines 51-52: \<open>html.escape\<close> (only a string has \<open>replace\<close>), the replacement of the
  escaped break marker, then the Markdown converter with the \<open>tables\<close> extra.
\<close>

definition text_to_html :: "env \<Rightarrow> json \<Rightarrow> error + string" where
  "text_to_html c sliced =
     (case sliced of
        JStr s \<Rightarrow>
          markdown c (str_replace (html_escape s True) ''&lt;br&gt;'' ''<br>'') [''tables'']
      | _ \<Rightarrow> Inl RecordShapeError)"

text \<open>Lines 47-56: the body of the loop, for one span.\<close>

definition render_page :: "env \<Rightarrow> string \<Rightarrow> json \<Rightarrow> json \<Rightarrow> error + page" where
  "render_page c local_pdf text span =
     (case unpack3 span of Inl e \<Rightarrow> Inl e | Inr (start_index, end_index, page_no) \<Rightarrow>
     (case slice_json text start_index end_index of Inl e \<Rightarrow> Inl e | Inr sliced \<Rightarrow>
     (case text_to_html c sliced of Inl e \<Rightarrow> Inl e | Inr html \<Rightarrow>
     (case render_pdf_to_base64webp c local_pdf page_no of Inl e \<Rightarrow> Inl e
      | Inr base64_image \<Rightarrow>
        Inr \<lparr>page_num = page_no, page_text = html, page_image = base64_image\<rparr>))))"

text \<open>
  Lines 45-56: the loop. \<open>pages\<close> is what has been appended so far; the first span that
  raises ends the loop with its exception.
\<close>

fun render_pages :: "env \<Rightarrow> string \<Rightarrow> json \<Rightarrow> json list \<Rightarrow> page list \<Rightarrow> error + page list" where
  "render_pages c local_pdf text [] pages = Inr pages"
| "render_pages c local_pdf text (span # spans) pages =
     (case render_page c local_pdf text span of
        Inl e \<Rightarrow> Inl e
      | Inr p \<Rightarrow> render_pages c local_pdf text spans (pages @ [p]))"

text \<open>Lines 61-64: the optional link.\<close>

definition s3_link_of :: "env \<Rightarrow> json \<Rightarrow> world \<Rightarrow> (error + string option) \<times> world" where
  "s3_link_of c source_file w =
     (if py_truthy source_file
      then (case source_file of
              JStr s \<Rightarrow>
                if startswith s ''s3://''
                then (case parse_s3_path c s of
                        Inl e \<Rightarrow> (Inl e, w)
                      | Inr (bucket_name, key_name) \<Rightarrow>
                          generate_presigned_url c bucket_name key_name w)
                else (Inr None, w)
            | _ \<Rightarrow> (Inl RecordShapeError, w))
      else (Inr None, w))"

text \<open>
  Lines 70-73: the file name (only a string has \<open>replace\<close>), the path, and the write,
  which replaces a file of the same path.
\<close>

definition write_output :: "env \<Rightarrow> string \<Rightarrow> json \<Rightarrow> string \<Rightarrow> world \<Rightarrow> (error + unit) \<times> world" where
  "write_output c output_dir source_file html_content w =
     (case source_file of
        JStr s \<Rightarrow>
          (let filename = output_filename s;
               filepath = path_join output_dir filename
           in case open_w c filepath of
                Some e \<Rightarrow> (Inl e, w)
              | None \<Rightarrow> (Inr (), w\<lparr>out_files := (out_files w)(filepath \<mapsto> html_content)\<rparr>))
      | _ \<Rightarrow> (Inl RecordShapeError, w))"

text \<open>
  The whole function. The collaborators \<open>c\<close> stand for the arguments \<open>s3_client\<close> and
  \<open>template\<close> and for the imported functions. An exception leaves the world as it was
  when it was raised: there is no handler and no \<open>finally\<close> in the function.
\<close>

definition process_document :: "env \<Rightarrow> json \<Rightarrow> string \<Rightarrow> world \<Rightarrow> (error + unit) \<times> world" where
  "process_document c data output_dir w =
     (case record_fields data of
        Inl e \<Rightarrow> (Inl e, w)
      | Inr (doc_id, text, pdf_page_numbers, source_file) \<Rightarrow>
         (case NamedTemporaryFile w of (local_pdf, w1) \<Rightarrow>
         (case get_s3_bytes c source_file of
            Inl e \<Rightarrow> (Inl e, w1)
          | Inr bytes \<Rightarrow>
             (let w2 = tmp_write local_pdf bytes w1 in
              case py_iter pdf_page_numbers of
                Inl e \<Rightarrow> (Inl e, w2)
              | Inr spans \<Rightarrow>
                 (case render_pages c bytes text spans [] of
                    Inl e \<Rightarrow> (Inl e, w2)
                  | Inr pages \<Rightarrow>
                     (let w3 = tmp_close local_pdf w2 in
                      case s3_link_of c source_file w3 of
                        (Inl e, w4) \<Rightarrow> (Inl e, w4)
                      | (Inr s3_link, w4) \<Rightarrow>
                         (case template_render c doc_id pages s3_link of
                            Inl e \<Rightarrow> (Inl e, w4)
                          | Inr html_content \<Rightarrow>
                              write_output c output_dir source_file html_content w4)))))))"

subsection \<open>\<open>main\<close> (lines 89-103)\<close>

text \<open>
  Lines 91-96, run in the driver itself: \<open>lines\<close> is what \<open>read_jsonl\<close> yields (each line
  stripped), \<open>loads\<close> is \<open>json.loads\<close>, \<open>futures\<close> holds the records submitted so far. The
  result is the exception that ended the loop, if any, and the records submitted.
\<close>

fun dispatch ::
  "(string \<Rightarrow> error + json) \<Rightarrow> string list \<Rightarrow> json list \<Rightarrow> error option \<times> json list" where
  "dispatch loads [] futures = (None, futures)"
| "dispatch loads (line # rest) futures =
     (if line = [] then dispatch loads rest futures
      else case loads line of
             Inl e \<Rightarrow> (Some e, futures)
           | Inr data \<Rightarrow> dispatch loads rest (futures @ [data]))"

text \<open>
  Lines 98-103: the futures in the order they complete. \<open>future_result\<close> is
  \<open>future.result()\<close>: what \<open>process_document\<close> returned or raised for that record. The
  handler is \<open>except Exception\<close>: it prints and re-raises; a failure it does not catch
  leaves the loop with nothing printed. The result is what the loop returns or raises,
  and the lines it printed.
\<close>

fun drain :: "(json \<Rightarrow> error + unit) \<Rightarrow> json list \<Rightarrow> (error + unit) \<times> message list" where
  "drain future_result [] = (Inr (), [])"
| "drain future_result (future # rest) =
     (case future_result future of
        Inr u \<Rightarrow> drain future_result rest
      | Inl e \<Rightarrow> (Inl e, if is_Exception e then [ErrorOccurred e] else []))"

text \<open>
  The driver: its result, the lines it printed, and the records it submitted.
  \<open>as_completed\<close> is the order in which the pool completes the submitted futures.
  Creating the output directory, loading the template and creating the client
  (lines 76-86) come before and are left out.
\<close>

definition main ::
  "(string \<Rightarrow> error + json) \<Rightarrow> (json \<Rightarrow> error + unit) \<Rightarrow> (json list \<Rightarrow> json list) \<Rightarrow>
   string list \<Rightarrow> (error + unit) \<times> message list \<times> json list" where
  "main loads future_result as_completed lines =
     (case dispatch loads lines [] of
        (Some e, futures) \<Rightarrow> (Inl e, [], futures)
      | (None, futures) \<Rightarrow>
         (case drain future_result (as_completed futures) of
            (r, printed) \<Rightarrow> (r, printed, futures)))"

text \<open>
  The worker pool of line 89. Each record submitted at line 95 is processed by one call
  of \<open>process_document\<close>; the calls are taken as atomic, in the order in which they
  complete. The result is what each call returned or raised, and the world after all of
  them.
\<close>

fun run_tasks ::
  "env \<Rightarrow> string \<Rightarrow> json list \<Rightarrow> world \<Rightarrow> (error + unit) list \<times> world" where
  "run_tasks c output_dir [] w = ([], w)"
| "run_tasks c output_dir (data # rest) w =
     (case process_document c data output_dir w of
        (r, w1) \<Rightarrow>
          (case run_tasks c output_dir rest w1 of
             (rs, w2) \<Rightarrow> (r # rs, w2)))"

text \<open>
  The world when \<open>main\<close> ends, by a return or by an exception. The dispatch loop and the
  drain loop are both inside the \<open>with\<close> block of the pool, and leaving that block waits
  for every submitted task (the executor's exit is \<open>shutdown(wait=True)\<close>; no future is
  cancelled): every record submitted has been processed, whatever ended \<open>main\<close>.
\<close>

definition main_world ::
  "env \<Rightarrow> (string \<Rightarrow> error + json) \<Rightarrow> (json list \<Rightarrow> json list) \<Rightarrow> string \<Rightarrow>
   string list \<Rightarrow> world \<Rightarrow> world" where
  "main_world c loads as_completed output_dir lines w =
     snd (run_tasks c output_dir (as_completed (snd (dispatch loads lines []))) w)"

subsection \<open>The text path, as the specification words it\<close>

text \<open>The escaped form of one character under \<open>html.escape(_, quote=True)\<close>.\<close>

definition escape_char :: "char \<Rightarrow> string" where
  "escape_char c =
     (if c = CHR ''&'' then ''&amp;''
      else if c = CHR ''<'' then ''&lt;''
      else if c = CHR ''>'' then ''&gt;''
      else if c = CHR 0x22 then ''&quot;''
      else if c = CHR 0x27 then ''&#x27;''
      else [c])"

text \<open>
  Reading the raw slice from the left: a literal break marker \<open><br>\<close> is kept as it is,
  every other character is escaped.
\<close>

fun escape_keep_br :: "string \<Rightarrow> string" where
  "escape_keep_br [] = []"
| "escape_keep_br (c # cs) =
     (if prefix ''<br>'' (c # cs) then ''<br>'' @ escape_keep_br (drop 3 cs)
      else escape_char c @ escape_keep_br cs)"


subsection \<open>Stand-ins for the collaborators\<close>

text \<open>
  A concrete set of collaborators and an empty world, to run the model on concrete
  records: every source file holds a PDF of two pages, Markdown wraps its input in a
  paragraph, the template concatenates the page texts and appends the link, every path
  can be written, and the storage client answers every request with \<open>presigned\<close>.
\<close>

definition sample_env :: "(error + string) \<Rightarrow> env" where
  "sample_env presigned =
     \<lparr>get_s3_bytes = (\<lambda>source_file. case source_file of
                         JStr s \<Rightarrow> Inr ''%PDF-1.4''
                       | _ \<Rightarrow> Inl (Failure ''no such object'')),
      render_pdf_to_base64webp = (\<lambda>local_pdf n.
                         if n = JInt 1 \<or> n = JInt 2 then Inr ''UklGRg==''
                         else Inl (Failure ''page out of range'')),
      markdown = (\<lambda>s extras. Inr (''<p>'' @ s @ ''</p>'')),
      parse_s3_path = (\<lambda>s. Inr (takeWhile (\<lambda>x. x \<noteq> CHR ''/'') (drop 5 s),
                                drop 1 (dropWhile (\<lambda>x. x \<noteq> CHR ''/'') (drop 5 s)))),
      s3_generate_presigned_url = (\<lambda>request. presigned),
      template_render = (\<lambda>doc_id pages s3_link.
                         Inr (concat (map page_text pages)
                              @ (case s3_link of None \<Rightarrow> [] | Some u \<Rightarrow> ''<a>'' @ u @ ''</a>''))),
      open_w = (\<lambda>filepath. None)\<rparr>"

definition empty_world :: world where
  "empty_world = \<lparr>tmp_files = Map.empty, tmp_next = 0, out_files = Map.empty,
                   presign_calls = [], stdout = []\<rparr>"

text \<open>
  The record of the specification's example: a text of 14 characters and three spans,
  the last of which ends at 15.
\<close>

definition hello_record :: json where
  "hello_record =
     JDict [(''id'', JStr ''d1''),
            (''text'', JStr ''Hello World!!X''),
            (''attributes'', JDict [(''pdf_page_numbers'',
               JList [JList [JInt 0, JInt 5, JInt 1],
                      JList [JInt 5, JInt 10, JInt 1],
                      JList [JInt 10, JInt 15, JInt 2]])]),
            (''metadata'', JDict [(''Source-File'', JStr ''s3://b/k.pdf'')])]"

text \<open>
  A record whose only span names page 7 of the two-page PDF.
\<close>

definition bad_page_record :: json where
  "bad_page_record =
     JDict [(''id'', JStr ''d3''),
            (''text'', JStr ''abc''),
            (''attributes'', JDict [(''pdf_page_numbers'', JList [JList [JInt 0, JInt 3, JInt 7]])]),
            (''metadata'', JDict [(''Source-File'', JStr ''s3://b/k.pdf'')])]"

text \<open>
  A stand-in for \<open>json.loads\<close> that knows three documents and rejects every other
  line, and a stand-in for \<open>future.result()\<close>: the task of an empty list raises the
  built-in exception, the task of \<open>null\<close> raises a retrieval failure, every other task
  returns.
\<close>

definition sample_loads :: "string \<Rightarrow> error + json" where
  "sample_loads s =
     (if s = ''{}'' then Inr (JDict [])
      else if s = ''[]'' then Inr (JList [])
      else if s = ''null'' then Inr JNull
      else Inl JSONDecodeError)"

definition sample_future_result :: "json \<Rightarrow> error + unit" where
  "sample_future_result data =
     (if data = JList [] then Inl RecordShapeError
      else if data = JNull then Inl (Failure ''no such object'')
      else Inr ())"

text \<open>
  The shortest record that is processed to the end: no text, no spans, a source file.
  \<open>record_loads\<close> is a stand-in for \<open>json.loads\<close> that knows its line and the empty
  list, and \<open>sample_task\<close> is \<open>future.result()\<close> for given collaborators: what
  \<open>process_document\<close> returns or raises for the record.
\<close>

definition source_only_line :: string where
  "source_only_line = ''{\"metadata\": {\"Source-File\": \"s3://b/k.pdf\"}}''"

definition source_only_record :: json where
  "source_only_record = JDict [(''metadata'', JDict [(''Source-File'', JStr ''s3://b/k.pdf'')])]"

definition record_loads :: "string \<Rightarrow> error + json" where
  "record_loads s =
     (if s = source_only_line then Inr source_only_record
      else if s = ''[]'' then Inr (JList [])
      else Inl JSONDecodeError)"

definition sample_task :: "env \<Rightarrow> json \<Rightarrow> error + unit" where
  "sample_task c data = fst (process_document c data ''dolma_previews'' empty_world)"

subsection \<open>Facts about the string primitives\<close>

lemma str_replace_char:
  "str_replace s [c] new = concat (map (\<lambda>x. if x = c then new else [x]) s)"
  by (induction s) auto

lemma set_str_replace_char:
  "set (str_replace s [c] new) \<subseteq> (set s - {c}) \<union> set new"
  by (auto simp: str_replace_char split: if_splits)

lemma html_escape_concat: "html_escape s True = concat (map escape_char s)"
  by (induction s) (auto simp: html_escape_def Let_def str_replace_char escape_char_def)

lemma html_escape_Nil: "html_escape [] True = []"
  by (simp add: html_escape_concat)

lemma html_escape_Cons: "html_escape (c # cs) True = escape_char c @ html_escape cs True"
  by (simp add: html_escape_concat)

text \<open>
  An escaped string continues an escaped \<open><\<close> to the escaped break marker only if the
  raw string continues \<open><\<close> to the raw marker.
\<close>

lemma br_prefix_escape:
  assumes p: "prefix ''br&gt;'' (html_escape cs True)"
  shows "prefix ''br>'' cs"
proof -
  from p obtain a as where cs: "cs = a # as"
    by (cases cs) (auto simp: html_escape_Nil)
  from p cs have a: "a = CHR ''b''" and p1: "prefix ''r&gt;'' (html_escape as True)"
    by (auto simp: html_escape_Cons escape_char_def split: if_splits)
  then obtain b bs where as: "as = b # bs"
    by (cases as) (auto simp: html_escape_Nil)
  from p1 as have b: "b = CHR ''r''" and p2: "prefix ''&gt;'' (html_escape bs True)"
    by (auto simp: html_escape_Cons escape_char_def split: if_splits)
  then obtain d ds where bs: "bs = d # ds"
    by (cases bs) (auto simp: html_escape_Nil)
  from p2 bs have "d = CHR ''>''"
    by (auto simp: html_escape_Cons escape_char_def split: if_splits)
  with cs as bs a b show ?thesis by simp
qed

lemma restore_step:
  assumes "\<not> prefix ''<br>'' (c # cs)"
  shows "str_replace (escape_char c @ html_escape cs True) ''&lt;br&gt;'' ''<br>''
         = escape_char c @ str_replace (html_escape cs True) ''&lt;br&gt;'' ''<br>''"
  using assms br_prefix_escape[of cs] by (auto simp: escape_char_def)

lemma restore_br: "str_replace (html_escape s True) ''&lt;br&gt;'' ''<br>'' = escape_keep_br s"
proof (induction s rule: escape_keep_br.induct)
  case 1
  then show ?case by (simp add: html_escape_Nil)
next
  case (2 c cs)
  show ?case
  proof (cases "prefix ''<br>'' (c # cs)")
    case True
    then obtain r where r: "c # cs = ''<br>'' @ r" by (auto simp: prefix_def)
    then have d: "drop 3 cs = r" by auto
    have "html_escape (c # cs) True = ''&lt;br&gt;'' @ html_escape r True"
      unfolding r by (simp add: html_escape_concat escape_char_def)
    then show ?thesis using 2(1)[OF True] True d by simp
  next
    case False
    have "escape_keep_br (c # cs) = escape_char c @ escape_keep_br cs"
      using False by auto
    then show ?thesis using 2(2)[OF False] restore_step[OF False]
      by (simp only: html_escape_Cons)
  qed
qed



lemma slice_json_int:
  "slice_json (JStr t) (JInt a) (JInt b) = Inr (JStr (py_slice t (Some a) (Some b)))"
  by (simp add: slice_json_def slice_index_def)

lemma unpack3_triple: "unpack3 (JList [a, b, p]) = Inr (a, b, p)"
  by (simp add: unpack3_def py_iter_def)

lemma str_replace_char_char:
  "str_replace s [c] [d] = map (\<lambda>x. if x = c then d else x) s"
  by (induction s) auto

lemma output_filename_map:
  "output_filename source_file
     = map (\<lambda>x. if x = CHR ''/'' \<or> x = CHR ''.'' then CHR ''_'' else x)
         (str_replace source_file ''s3://'' []) @ ''.html''"
  by (simp add: output_filename_def str_replace_char_char)

subsection \<open>Facts about \<open>process_document\<close>\<close>

lemma render_pages_acc:
  "render_pages c local_pdf text spans acc =
     (case render_pages c local_pdf text spans [] of
        Inl e \<Rightarrow> Inl e
      | Inr ps \<Rightarrow> Inr (acc @ ps))"
proof (induction spans arbitrary: acc)
  case Nil
  then show ?case by simp
next
  case (Cons span spans)
  show ?case
  proof (cases "render_page c local_pdf text span")
    case (Inl e)
    then show ?thesis by simp
  next
    case (Inr p)
    then show ?thesis
      using Cons.IH[of "acc @ [p]"] Cons.IH[of "[p]"]
      by (simp split: sum.splits)
  qed
qed

lemma fst_generate_presigned_url:
  "fst (generate_presigned_url c b k w) =
     (case s3_generate_presigned_url c
             \<lparr>ClientMethod = ''get_object'', Bucket = b, Key = k, ExpiresIn = 604700\<rparr> of
        Inr response \<Rightarrow> Inr (Some response)
      | Inl e \<Rightarrow> if e = NoCredentialsError \<or> e = PartialCredentialsError
                 then Inr None else Inl e)"
  by (simp add: generate_presigned_url_def Let_def split: sum.splits)

lemma files_generate_presigned_url:
  "out_files (snd (generate_presigned_url c b k w)) = out_files w \<and>
   tmp_files (snd (generate_presigned_url c b k w)) = tmp_files w"
  by (simp add: generate_presigned_url_def Let_def split: sum.splits)

lemma fst_s3_link_of_any_world: "fst (s3_link_of c sf w) = fst (s3_link_of c sf w')"
  by (simp add: s3_link_of_def fst_generate_presigned_url split: json.splits sum.splits prod.splits)

lemma files_s3_link_of:
  "out_files (snd (s3_link_of c sf w)) = out_files w \<and>
   tmp_files (snd (s3_link_of c sf w)) = tmp_files w"
  by (simp add: s3_link_of_def files_generate_presigned_url
           split: json.splits sum.splits prod.splits)

lemma process_document_completes:
  assumes rf: "record_fields data = Inr (doc_id, text, ppn, JStr sf)"
    and gb: "get_s3_bytes c (JStr sf) = Inr bytes"
    and it: "py_iter ppn = Inr spans"
    and rp: "render_pages c bytes text spans [] = Inr pages"
    and lk: "fst (s3_link_of c (JStr sf) w) = Inr link"
    and tr: "template_render c doc_id pages link = Inr html"
    and ow: "open_w c (path_join out (output_filename sf)) = None"
  shows "fst (process_document c data out w) = Inr () \<and>
         out_files (snd (process_document c data out w))
           = (out_files w)(path_join out (output_filename sf) \<mapsto> html) \<and>
         tmp_files (snd (process_document c data out w)) = (tmp_files w)(tmp_next w := None)"
proof -
  define w3 where "w3 = tmp_close (tmp_next w) (tmp_write (tmp_next w) bytes (snd (NamedTemporaryFile w)))"
  obtain l w4 where s: "s3_link_of c (JStr sf) w3 = (l, w4)" by (cases "s3_link_of c (JStr sf) w3")
  have l: "l = Inr link"
    using lk s fst_s3_link_of_any_world[of c "JStr sf" w w3] by simp
  have f4: "out_files w4 = out_files w3 \<and> tmp_files w4 = tmp_files w3"
    using files_s3_link_of[of c "JStr sf" w3] s by simp
  have f3: "out_files w3 = out_files w \<and> tmp_files w3 = (tmp_files w)(tmp_next w := None)"
    by (simp add: w3_def tmp_close_def tmp_write_def NamedTemporaryFile_def)
  have pd: "process_document c data out w = write_output c out (JStr sf) html w4"
    using rf gb it rp s l tr
    by (simp add: process_document_def NamedTemporaryFile_def Let_def w3_def)
  show ?thesis
    using ow f3 f4 by (simp add: pd write_output_def Let_def)
qed

lemma process_document_loop_raises:
  assumes rf: "record_fields data = Inr (doc_id, text, ppn, sf)"
    and gb: "get_s3_bytes c sf = Inr bytes"
    and it: "py_iter ppn = Inr spans"
    and rp: "render_pages c bytes text spans [] = Inl e"
  shows "process_document c data out w =
           (Inl e, w\<lparr>tmp_files := (tmp_files w)(tmp_next w \<mapsto> bytes), tmp_next := Suc (tmp_next w)\<rparr>)"
  using assms
  by (simp add: process_document_def NamedTemporaryFile_def Let_def tmp_write_def)

lemma py_slice_end_clamped:
  "int (length t) \<le> b \<Longrightarrow> py_slice t (Some a) (Some b) = py_slice t (Some a) (Some (int (length t)))"
  by (simp add: py_slice_def Let_def)

lemma py_slice_Nil: "py_slice [] a b = []"
  by (simp add: py_slice_def Let_def)

lemma render_page_int:
  "render_page c local_pdf (JStr t) (JList [JInt a, JInt b, p])
     = (case markdown c (escape_keep_br (py_slice t (Some a) (Some b))) [''tables''] of
          Inl e \<Rightarrow> Inl e
        | Inr html \<Rightarrow>
           (case render_pdf_to_base64webp c local_pdf p of
              Inl e \<Rightarrow> Inl e
            | Inr base64_image \<Rightarrow>
                Inr \<lparr>page_num = p, page_text = html, page_image = base64_image\<rparr>))"
  by (simp add: render_page_def unpack3_triple slice_json_int text_to_html_def restore_br)

lemma render_pages_int_spans:
  assumes "\<forall>(a, b, p) \<in> set spans.
             markdown c (escape_keep_br (py_slice t (Some a) (Some b))) [''tables'']
               = Inr (md (escape_keep_br (py_slice t (Some a) (Some b)))) \<and>
             render_pdf_to_base64webp c local_pdf p = Inr (img p)"
  shows "render_pages c local_pdf (JStr t) (map (\<lambda>(a, b, p). JList [JInt a, JInt b, p]) spans) acc
         = Inr (acc @ map (\<lambda>(a, b, p). \<lparr>page_num = p,
                                         page_text = md (escape_keep_br (py_slice t (Some a) (Some b))),
                                         page_image = img p\<rparr>) spans)"
  using assms
proof (induction spans arbitrary: acc)
  case Nil
  then show ?case by simp
next
  case (Cons x spans)
  obtain a b p where x: "x = (a, b, p)" by (cases x)
  from Cons.prems x
  have h: "markdown c (escape_keep_br (py_slice t (Some a) (Some b))) [''tables'']
             = Inr (md (escape_keep_br (py_slice t (Some a) (Some b))))"
          "render_pdf_to_base64webp c local_pdf p = Inr (img p)"
    by auto
  have rest: "\<forall>(a, b, p) \<in> set spans.
             markdown c (escape_keep_br (py_slice t (Some a) (Some b))) [''tables'']
               = Inr (md (escape_keep_br (py_slice t (Some a) (Some b)))) \<and>
             render_pdf_to_base64webp c local_pdf p = Inr (img p)"
    using Cons.prems by simp
  show ?case
    using Cons.IH[OF rest] by (simp add: x render_page_int h)
qed

lemma process_document_link_raises:
  assumes rf: "record_fields data = Inr (doc_id, text, ppn, sf)"
    and gb: "get_s3_bytes c sf = Inr bytes"
    and it: "py_iter ppn = Inr spans"
    and rp: "render_pages c bytes text spans [] = Inr pages"
    and lk: "fst (s3_link_of c sf w) = Inl e"
  shows "fst (process_document c data out w) = Inl e \<and>
         out_files (snd (process_document c data out w)) = out_files w"
proof -
  define w3 where "w3 = tmp_close (tmp_next w) (tmp_write (tmp_next w) bytes (snd (NamedTemporaryFile w)))"
  obtain l w4 where s: "s3_link_of c sf w3 = (l, w4)" by (cases "s3_link_of c sf w3")
  have l: "l = Inl e"
    using lk s fst_s3_link_of_any_world[of c sf w w3] by simp
  have f4: "out_files w4 = out_files w3"
    using files_s3_link_of[of c sf w3] s by simp
  have f3: "out_files w3 = out_files w"
    by (simp add: w3_def tmp_close_def tmp_write_def NamedTemporaryFile_def)
  have pd: "process_document c data out w = (Inl e, w4)"
    using rf gb it rp s l
    by (simp add: process_document_def NamedTemporaryFile_def Let_def w3_def)
  show ?thesis using f3 f4 by (simp add: pd)
qed

lemma fst_s3_link_of_s3_path:
  assumes "startswith sf ''s3://''" and "parse_s3_path c sf = Inr (bucket_name, key_name)"
  shows "fst (s3_link_of c (JStr sf) w) = fst (generate_presigned_url c bucket_name key_name w)"
  using assms by (auto simp: s3_link_of_def py_truthy_def startswith_def)

lemma record_fields_dict:
  "record_fields (JDict items) =
     (case (case map_of items ''attributes'' of None \<Rightarrow> JDict [] | Some v \<Rightarrow> v) of
        JDict ais \<Rightarrow>
          (case (case map_of items ''metadata'' of None \<Rightarrow> JDict [] | Some v \<Rightarrow> v) of
             JDict mis \<Rightarrow>
               Inr (case map_of items ''id'' of None \<Rightarrow> JNull | Some v \<Rightarrow> v,
                    case map_of items ''text'' of None \<Rightarrow> JStr [] | Some v \<Rightarrow> v,
                    case map_of ais ''pdf_page_numbers'' of None \<Rightarrow> JList [] | Some v \<Rightarrow> v,
                    case map_of mis ''Source-File'' of None \<Rightarrow> JNull | Some v \<Rightarrow> v)
           | _ \<Rightarrow> Inl RecordShapeError)
      | _ \<Rightarrow> Inl RecordShapeError)"
  by (simp add: record_fields_def dict_get_def split: json.splits option.splits)

lemma hello_record_fields:
  "record_fields hello_record
     = Inr (JStr ''d1'', JStr ''Hello World!!X'',
            JList (map (\<lambda>(a, b, p). JList [JInt a, JInt b, p])
                     [(0, 5, JInt 1), (5, 10, JInt 1), (10, 15, JInt 2)]),
            JStr ''s3://b/k.pdf'')"
  by (simp add: hello_record_def record_fields_def dict_get_def)

lemma sample_link:
  "fst (s3_link_of (sample_env presigned) (JStr ''s3://b/k.pdf'') w)
     = (case presigned of
          Inr u \<Rightarrow> Inr (Some u)
        | Inl e \<Rightarrow> if e = NoCredentialsError \<or> e = PartialCredentialsError
                   then Inr None else Inl e)"
  by (simp add: s3_link_of_def py_truthy_def startswith_def fst_generate_presigned_url
        sample_env_def split: sum.splits)

lemma generate_presigned_url_credentials:
  assumes "s3_generate_presigned_url c
             \<lparr>ClientMethod = ''get_object'', Bucket = b, Key = k, ExpiresIn = 604700\<rparr> = Inl e"
    and "e = NoCredentialsError \<or> e = PartialCredentialsError"
  shows "generate_presigned_url c b k w
           = (Inr None,
              w\<lparr>presign_calls := presign_calls w @
                     [\<lparr>ClientMethod = ''get_object'', Bucket = b, Key = k, ExpiresIn = 604700\<rparr>],
                 stdout := stdout w @ [CredentialsNotFound]\<rparr>)"
  using assms by (auto simp: generate_presigned_url_def Let_def)

lemma hello_pages:
  "render_pages (sample_env presigned) ''%PDF-1.4'' (JStr ''Hello World!!X'')
     [JList [JInt 0, JInt 5, JInt 1], JList [JInt 5, JInt 10, JInt 1],
      JList [JInt 10, JInt 15, JInt 2]] []
   = Inr [\<lparr>page_num = JInt 1, page_text = ''<p>Hello</p>'', page_image = ''UklGRg==''\<rparr>,
          \<lparr>page_num = JInt 1, page_text = ''<p> Worl</p>'', page_image = ''UklGRg==''\<rparr>,
          \<lparr>page_num = JInt 2, page_text = ''<p>d!!X</p>'', page_image = ''UklGRg==''\<rparr>]"
  by (simp add: render_page_int sample_env_def py_slice_def escape_char_def)

lemma bad_page_record_fields:
  "record_fields bad_page_record
     = Inr (JStr ''d3'', JStr ''abc'', JList [JList [JInt 0, JInt 3, JInt 7]],
            JStr ''s3://b/k.pdf'')"
  by (simp add: bad_page_record_def record_fields_def dict_get_def)

lemma s3_link_of_out_files:
  "s3_link_of c sf w = (r, w') \<Longrightarrow> out_files w' = out_files w"
  using files_s3_link_of[of c sf w] by simp

lemma write_output_fst_any_world:
  "fst (write_output c out sf html w) = fst (write_output c out sf html w')"
  by (simp add: write_output_def Let_def split: json.splits option.splits)

lemma fst_process_document_any_world:
  "fst (process_document c data out w) = fst (process_document c data out w')"
proof -
  have "fst (s3_link_of c sf u) = fst (s3_link_of c sf u')" for sf u u'
    by (rule fst_s3_link_of_any_world)
  then have k: "s3_link_of c sf u = (l, v) \<Longrightarrow> s3_link_of c sf u' = (l', v') \<Longrightarrow> l = l'"
    for sf u u' l l' v v'
    by (metis fst_conv)
  show ?thesis
    using write_output_fst_any_world[of c out]
    by (auto simp: process_document_def NamedTemporaryFile_def Let_def
             split: sum.splits prod.splits dest: k)
qed

lemma process_document_keeps_out_files:
  assumes "out_files w p \<noteq> None"
  shows "out_files (snd (process_document c data out w)) p \<noteq> None"
  using assms
  by (auto simp: process_document_def NamedTemporaryFile_def Let_def tmp_write_def tmp_close_def
                 write_output_def
           split: sum.splits prod.splits json.splits option.splits
           dest!: s3_link_of_out_files)

lemma process_document_returns_written:
  assumes "fst (process_document c data out w) = Inr ()"
    and "record_fields data = Inr (doc_id, text, ppn, JStr sf)"
  shows "out_files (snd (process_document c data out w)) (path_join out (output_filename sf))
           \<noteq> None"
  using assms
  by (auto simp: process_document_def NamedTemporaryFile_def Let_def write_output_def
           split: sum.splits prod.splits json.splits option.splits)

lemma run_tasks_keeps_out_files:
  "out_files w p \<noteq> None \<Longrightarrow> out_files (snd (run_tasks c out ds w)) p \<noteq> None"
proof (induction ds arbitrary: w)
  case Nil
  then show ?case by simp
next
  case (Cons d ds)
  obtain r w1 where pd: "process_document c d out w = (r, w1)"
    by (cases "process_document c d out w")
  have "out_files w1 p \<noteq> None"
    using process_document_keeps_out_files[OF Cons.prems, of c d out] pd by simp
  from Cons.IH[OF this] show ?case
    by (cases "run_tasks c out ds w1") (simp add: pd)
qed

lemma run_tasks_returned_task_written:
  assumes "x \<in> set ds"
    and "\<forall>w'. fst (process_document c x out w') = Inr ()"
    and "record_fields x = Inr (doc_id, text, ppn, JStr sf)"
  shows "out_files (snd (run_tasks c out ds w)) (path_join out (output_filename sf)) \<noteq> None"
  using assms(1)
proof (induction ds arbitrary: w)
  case Nil
  then show ?case by simp
next
  case (Cons d ds)
  obtain r w1 where pd: "process_document c d out w = (r, w1)"
    by (cases "process_document c d out w")
  show ?case
  proof (cases "x = d")
    case True
    have "fst (process_document c x out w) = Inr ()"
      using assms(2) by simp
    from process_document_returns_written[OF this assms(3)]
    have "out_files w1 (path_join out (output_filename sf)) \<noteq> None"
      using pd True by simp
    from run_tasks_keeps_out_files[OF this, of c out ds] show ?thesis
      by (cases "run_tasks c out ds w1") (simp add: pd)
  next
    case False
    with Cons.prems have "x \<in> set ds" by simp
    from Cons.IH[OF this, of w1] show ?thesis
      by (cases "run_tasks c out ds w1") (simp add: pd)
  qed
qed

lemma process_document_not_a_dict:
  "process_document c (JList xs) out w = (Inl RecordShapeError, w)"
  by (simp add: process_document_def record_fields_def dict_get_def)

lemma source_only_record_fields:
  "record_fields source_only_record = Inr (JNull, JStr [], JList [], JStr ''s3://b/k.pdf'')"
  by (simp add: source_only_record_def record_fields_def dict_get_def)

lemma source_only_record_processed:
  "fst (process_document (sample_env (Inr ''https://signed'')) source_only_record
          ''dolma_previews'' w) = Inr () \<and>
   out_files (snd (process_document (sample_env (Inr ''https://signed'')) source_only_record
          ''dolma_previews'' w))
     = (out_files w)(''dolma_previews/b_k_pdf.html'' \<mapsto> ''<a>https://signed</a>'')"
proof -
  let ?c = "sample_env (Inr ''https://signed'')"
  have gb: "get_s3_bytes ?c (JStr ''s3://b/k.pdf'') = Inr ''%PDF-1.4''"
    by (simp add: sample_env_def)
  have it: "py_iter (JList []) = Inr []"
    by (simp add: py_iter_def)
  have rp: "render_pages ?c ''%PDF-1.4'' (JStr []) [] [] = Inr []"
    by simp
  have lk: "fst (s3_link_of ?c (JStr ''s3://b/k.pdf'') w) = Inr (Some ''https://signed'')"
    by (simp add: sample_link)
  have tr: "template_render ?c JNull [] (Some ''https://signed'') = Inr ''<a>https://signed</a>''"
    by (simp add: sample_env_def)
  have ow: "open_w ?c (path_join ''dolma_previews'' (output_filename ''s3://b/k.pdf'')) = None"
    by (simp add: sample_env_def)
  have pth: "path_join ''dolma_previews'' (output_filename ''s3://b/k.pdf'')
               = ''dolma_previews/b_k_pdf.html''"
    by (simp add: path_join_def output_filename_def startswith_def)
  from process_document_completes[OF source_only_record_fields gb it rp lk tr ow]
  show ?thesis by (simp add: pth)
qed

lemma source_only_record_interrupted:
  "fst (process_document (sample_env (Inl (BaseFailure ''SystemExit'')))
          source_only_record ''dolma_previews'' w) = Inl (BaseFailure ''SystemExit'')"
proof -
  let ?c = "sample_env (Inl (BaseFailure ''SystemExit''))"
  have gb: "get_s3_bytes ?c (JStr ''s3://b/k.pdf'') = Inr ''%PDF-1.4''"
    by (simp add: sample_env_def)
  have it: "py_iter (JList []) = Inr []"
    by (simp add: py_iter_def)
  have rp: "render_pages ?c ''%PDF-1.4'' (JStr []) [] [] = Inr []"
    by simp
  have lk: "fst (s3_link_of ?c (JStr ''s3://b/k.pdf'') w) = Inl (BaseFailure ''SystemExit'')"
    by (simp add: sample_link)
  from process_document_link_raises[OF source_only_record_fields gb it rp lk]
  show ?thesis by simp
qed

subsection \<open>Facts about the driver\<close>

lemma drain_first_failure:
  assumes "\<forall>x \<in> set good. future_result x = Inr ()" and "future_result bad = Inl e"
  shows "drain future_result (good @ bad # rest)
           = (Inl e, if is_Exception e then [ErrorOccurred e] else [])"
  using assms by (induction good) auto

lemma dispatch_parsed_prefix:
  assumes "\<forall>l \<in> set before. l \<noteq> [] \<longrightarrow> loads l = Inr (parsed l)"
  shows "dispatch loads (before @ rest) futures
           = dispatch loads rest (futures @ map parsed (filter (\<lambda>l. l \<noteq> []) before))"
  using assms by (induction before arbitrary: futures) auto

lemma record_loads_dispatch:
  "dispatch record_loads [''[]'', source_only_line] [] = (None, [JList [], source_only_record])"
  by (simp add: record_loads_def source_only_line_def)

lemma record_loads_dispatch_one:
  "dispatch record_loads [source_only_line] [] = (None, [source_only_record])"
  by (simp add: record_loads_def source_only_line_def)

lemma sample_task_any_world:
  "\<forall>data w'. sample_task c data = fst (process_document c data ''dolma_previews'' w')"
  using fst_process_document_any_world[of c _ "''dolma_previews''" empty_world]
  by (simp add: sample_task_def)

section \<open>The claims\<close>


text \<open>
  C2. A span whose end index lies beyond the end of the text does not make the slicing
  step raise: the slice is the one up to the end of the text. A record all of whose spans
  have integer bounds, in range or not, is processed to completion whenever the
  collaborators do not raise (the bytes are retrieved, Markdown and the rasteriser answer
  for every span, the link step, the template and the write succeed): the invocation
  returns, and the output file holds the template's rendering of one page per span,
  each with the text of its clamped slice.
\<close>

theorem out_of_range_end_index_is_clamped:
  assumes rf: "record_fields data
                 = Inr (doc_id, JStr t,
                        JList (map (\<lambda>(a, b, p). JList [JInt a, JInt b, p]) spans), JStr sf)"
    and sp: "(a0, b0, p0) \<in> set spans"
    and oob: "int (length t) < b0"
    and gb: "get_s3_bytes c (JStr sf) = Inr bytes"
    and md: "\<forall>s. markdown c s [''tables''] = Inr (md s)"
    and im: "\<forall>(a, b, p) \<in> set spans. render_pdf_to_base64webp c bytes p = Inr (img p)"
    and lk: "fst (s3_link_of c (JStr sf) w) = Inr link"
    and tr: "template_render c doc_id
               (map (\<lambda>(a, b, p). \<lparr>page_num = p,
                                   page_text = md (escape_keep_br (py_slice t (Some a) (Some (min b (int (length t)))))),
                                   page_image = img p\<rparr>) spans) link = Inr html"
    and ow: "open_w c (path_join out (output_filename sf)) = None"
  shows "slice_json (JStr t) (JInt a0) (JInt b0)
           = Inr (JStr (py_slice t (Some a0) (Some (int (length t))))) \<and>
         fst (process_document c data out w) = Inr () \<and>
         out_files (snd (process_document c data out w))
           = (out_files w)(path_join out (output_filename sf) \<mapsto> html)"
proof -
  have cl: "py_slice t (Some a) (Some (min b (int (length t)))) = py_slice t (Some a) (Some b)" for a b
    by (simp add: py_slice_def Let_def min_def)
  have 1: "slice_json (JStr t) (JInt a0) (JInt b0)
           = Inr (JStr (py_slice t (Some a0) (Some (int (length t)))))"
    using oob py_slice_end_clamped[of t b0 a0] by (simp add: slice_json_int)
  have pre: "\<forall>(a, b, p) \<in> set spans.
             markdown c (escape_keep_br (py_slice t (Some a) (Some b))) [''tables'']
               = Inr (md (escape_keep_br (py_slice t (Some a) (Some b)))) \<and>
             render_pdf_to_base64webp c bytes p = Inr (img p)"
    using md im by auto
  have rp: "render_pages c bytes (JStr t) (map (\<lambda>(a, b, p). JList [JInt a, JInt b, p]) spans) []
         = Inr (map (\<lambda>(a, b, p). \<lparr>page_num = p,
                                   page_text = md (escape_keep_br (py_slice t (Some a) (Some (min b (int (length t)))))),
                                   page_image = img p\<rparr>) spans)"
    using render_pages_int_spans[OF pre, of "[]"] by (simp add: cl)
  have it: "py_iter (JList (map (\<lambda>(a, b, p). JList [JInt a, JInt b, p]) spans))
              = Inr (map (\<lambda>(a, b, p). JList [JInt a, JInt b, p]) spans)"
    by (simp add: py_iter_def)
  from 1 process_document_completes[OF rf gb it rp lk tr ow] show ?thesis by simp
qed

theorem out_of_range_end_index_is_clamped_witness:
  "slice_json (JStr ''Hello World!!X'') (JInt 10) (JInt 15) = Inr (JStr ''d!!X'') \<and>
   fst (process_document (sample_env (Inr ''https://signed'')) hello_record
          ''dolma_previews'' empty_world) = Inr () \<and>
   out_files (snd (process_document (sample_env (Inr ''https://signed'')) hello_record
          ''dolma_previews'' empty_world)) ''dolma_previews/b_k_pdf.html''
     = Some ''<p>Hello</p><p> Worl</p><p>d!!X</p><a>https://signed</a>''"
proof -
  let ?c = "sample_env (Inr ''https://signed'')"
  have sp: "(10, 15, JInt 2) \<in> set [(0, 5, JInt 1), (5, 10, JInt 1), (10::int, 15::int, JInt 2)]"
    by simp
  have oob: "int (length ''Hello World!!X'') < 15"
    by simp
  have gb: "get_s3_bytes ?c (JStr ''s3://b/k.pdf'') = Inr ''%PDF-1.4''"
    by (simp add: sample_env_def)
  have md: "\<forall>s. markdown ?c s [''tables''] = Inr (''<p>'' @ s @ ''</p>'')"
    by (simp add: sample_env_def)
  have im: "\<forall>(a, b, p) \<in> set [(0, 5, JInt 1), (5, 10, JInt 1), (10::int, 15::int, JInt 2)].
              render_pdf_to_base64webp ?c ''%PDF-1.4'' p = Inr ''UklGRg==''"
    by (simp add: sample_env_def)
  have lk: "fst (s3_link_of ?c (JStr ''s3://b/k.pdf'') empty_world) = Inr (Some ''https://signed'')"
    by (simp add: sample_link)
  have tr: "template_render ?c (JStr ''d1'')
              (map (\<lambda>(a, b, p). \<lparr>page_num = p,
                     page_text = ''<p>'' @ escape_keep_br (py_slice ''Hello World!!X'' (Some a)
                                   (Some (min b (int (length ''Hello World!!X''))))) @ ''</p>'',
                     page_image = ''UklGRg==''\<rparr>)
                 [(0, 5, JInt 1), (5, 10, JInt 1), (10, 15, JInt 2)])
              (Some ''https://signed'')
            = Inr ''<p>Hello</p><p> Worl</p><p>d!!X</p><a>https://signed</a>''"
    by (simp add: sample_env_def py_slice_def escape_char_def)
  have ow: "open_w ?c (path_join ''dolma_previews'' (output_filename ''s3://b/k.pdf'')) = None"
    by (simp add: sample_env_def)
  show ?thesis
    using out_of_range_end_index_is_clamped[OF hello_record_fields sp oob gb md im lk tr ow]
    by (simp add: py_slice_def path_join_def output_filename_def startswith_def)
qed

text \<open>
  C3, amended. For a batch all of whose lines were dispatched and in which some task
  raises: the drain loop reads the futures in completion order, passes those that
  returned, and at the first one that raised re-raises its failure, after printing one
  line that carries it when the failure is an \<open>Exception\<close>, and printing nothing when it
  is not. \<open>main\<close> ends with that failure, and the futures that complete later are never
  read. The rest of the batch is not aborted: \<open>main\<close> ends only after every submitted task
  has run, and every submitted record whose task returns has its output file written.
\<close>

theorem first_observed_failure_ends_drain_not_the_tasks:
  assumes dp: "dispatch loads lines [] = (None, futures)"
    and ac: "set (as_completed futures) = set futures"
    and fr: "\<forall>data w'. future_result data = fst (process_document c data output_dir w')"
    and d: "d \<in> set futures"
    and fd: "future_result d = Inl e0"
  shows "\<exists>good bad rest e.
           as_completed futures = good @ bad # rest \<and>
           (\<forall>x \<in> set good. future_result x = Inr ()) \<and>
           future_result bad = Inl e \<and>
           main loads future_result as_completed lines
             = (Inl e, if is_Exception e then [ErrorOccurred e] else [], futures) \<and>
           (\<forall>x \<in> set futures. \<forall>doc_id text ppn sf.
              future_result x = Inr () \<and> record_fields x = Inr (doc_id, text, ppn, JStr sf) \<longrightarrow>
              out_files (main_world c loads as_completed output_dir lines w)
                (path_join output_dir (output_filename sf)) \<noteq> None)"
proof -
  have "isl (future_result d)"
    using fd by simp
  then have "\<exists>x \<in> set (as_completed futures). isl (future_result x)"
    using ac d by blast
  then obtain good bad rest where sp: "as_completed futures = good @ bad # rest"
    and bad: "isl (future_result bad)" and good: "\<forall>x \<in> set good. \<not> isl (future_result x)"
    using split_list_first_prop[of "as_completed futures" "\<lambda>x. isl (future_result x)"] by blast
  from bad obtain e where e: "future_result bad = Inl e"
    by (cases "future_result bad") auto
  have g: "\<forall>x \<in> set good. future_result x = Inr ()"
  proof
    fix x assume "x \<in> set good"
    with good have "\<not> isl (future_result x)" by simp
    then show "future_result x = Inr ()" by (cases "future_result x") auto
  qed
  have dr: "drain future_result (as_completed futures)
              = (Inl e, if is_Exception e then [ErrorOccurred e] else [])"
    unfolding sp by (rule drain_first_failure[OF g e])
  have m: "main loads future_result as_completed lines
             = (Inl e, if is_Exception e then [ErrorOccurred e] else [], futures)"
    by (simp add: main_def dp dr)
  have mw: "main_world c loads as_completed output_dir lines w
              = snd (run_tasks c output_dir (as_completed futures) w)"
    by (simp add: main_world_def dp)
  have wr: "\<forall>x \<in> set futures. \<forall>doc_id text ppn sf.
              future_result x = Inr () \<and> record_fields x = Inr (doc_id, text, ppn, JStr sf) \<longrightarrow>
              out_files (main_world c loads as_completed output_dir lines w)
                (path_join output_dir (output_filename sf)) \<noteq> None"
  proof (intro ballI allI impI)
    fix x doc_id tx ppn sf
    assume x: "x \<in> set futures"
      and h: "future_result x = Inr () \<and> record_fields x = Inr (doc_id, tx, ppn, JStr sf)"
    have xin: "x \<in> set (as_completed futures)"
      using x ac by simp
    have ok: "\<forall>w'. fst (process_document c x output_dir w') = Inr ()"
      using h fr by metis
    from run_tasks_returned_task_written[OF xin ok, of doc_id tx ppn sf w] h
    show "out_files (main_world c loads as_completed output_dir lines w)
            (path_join output_dir (output_filename sf)) \<noteq> None"
      by (simp add: mw)
  qed
  from sp g e m wr show ?thesis by blast
qed

theorem first_observed_failure_ends_drain_not_the_tasks_witness:
  "main record_loads (sample_task (sample_env (Inr ''https://signed''))) id
     [''[]'', source_only_line]
     = (Inl RecordShapeError, [ErrorOccurred RecordShapeError], [JList [], source_only_record]) \<and>
   out_files (main_world (sample_env (Inr ''https://signed'')) record_loads id ''dolma_previews''
                [''[]'', source_only_line] empty_world) ''dolma_previews/b_k_pdf.html'' \<noteq> None \<and>
   main record_loads (sample_task (sample_env (Inl (BaseFailure ''SystemExit'')))) id
     [source_only_line]
     = (Inl (BaseFailure ''SystemExit''), [], [source_only_record])"
proof -
  let ?c = "sample_env (Inr ''https://signed'')"
  let ?k = "sample_env (Inl (BaseFailure ''SystemExit''))"
  have ac: "set (id [JList [], source_only_record]) = set [JList [], source_only_record]"
    by simp
  have d: "JList [] \<in> set [JList [], source_only_record]"
    by simp
  have fd: "sample_task ?c (JList []) = Inl RecordShapeError"
    by (simp add: sample_task_def process_document_not_a_dict)
  have ok: "sample_task ?c source_only_record = Inr ()"
    by (simp add: sample_task_def source_only_record_processed)
  have pth: "path_join ''dolma_previews'' (output_filename ''s3://b/k.pdf'')
               = ''dolma_previews/b_k_pdf.html''"
    by (simp add: path_join_def output_filename_def startswith_def)
  from first_observed_failure_ends_drain_not_the_tasks
         [where as_completed = id and future_result = "sample_task ?c" and c = ?c
            and output_dir = "''dolma_previews''" and w = empty_world,
          OF record_loads_dispatch ac sample_task_any_world d fd]
  obtain e where
    m: "main record_loads (sample_task ?c) id [''[]'', source_only_line]
          = (Inl e, if is_Exception e then [ErrorOccurred e] else [],
             [JList [], source_only_record])"
    and wr: "\<forall>x \<in> set [JList [], source_only_record]. \<forall>doc_id tx ppn sf.
              sample_task ?c x = Inr () \<and> record_fields x = Inr (doc_id, tx, ppn, JStr sf) \<longrightarrow>
              out_files (main_world ?c record_loads id ''dolma_previews''
                           [''[]'', source_only_line] empty_world)
                (path_join ''dolma_previews'' (output_filename sf)) \<noteq> None"
    by blast
  have "fst (main record_loads (sample_task ?c) id [''[]'', source_only_line])
          = Inl RecordShapeError"
    unfolding main_def record_loads_dispatch by (simp add: fd)
  with m have e: "e = RecordShapeError"
    by simp
  have 1: "main record_loads (sample_task ?c) id [''[]'', source_only_line]
     = (Inl RecordShapeError, [ErrorOccurred RecordShapeError], [JList [], source_only_record])"
    using m by (simp add: e is_Exception_def)
  have 2: "out_files (main_world ?c record_loads id ''dolma_previews''
                [''[]'', source_only_line] empty_world) ''dolma_previews/b_k_pdf.html'' \<noteq> None"
    using wr ok source_only_record_fields pth by fastforce
  have ac2: "set (id [source_only_record]) = set [source_only_record]"
    by simp
  have d2: "source_only_record \<in> set [source_only_record]"
    by simp
  have fd2: "sample_task ?k source_only_record = Inl (BaseFailure ''SystemExit'')"
    by (simp add: sample_task_def source_only_record_interrupted)
  from first_observed_failure_ends_drain_not_the_tasks
         [where as_completed = id and future_result = "sample_task ?k" and c = ?k
            and output_dir = "''dolma_previews''" and w = empty_world,
          OF record_loads_dispatch_one ac2 sample_task_any_world d2 fd2]
  obtain e2 where
    m2: "main record_loads (sample_task ?k) id [source_only_line]
          = (Inl e2, if is_Exception e2 then [ErrorOccurred e2] else [], [source_only_record])"
    by blast
  have "fst (main record_loads (sample_task ?k) id [source_only_line])
          = Inl (BaseFailure ''SystemExit'')"
    unfolding main_def record_loads_dispatch_one by (simp add: fd2)
  with m2 have e2: "e2 = BaseFailure ''SystemExit''"
    by simp
  have 3: "main record_loads (sample_task ?k) id [source_only_line]
             = (Inl (BaseFailure ''SystemExit''), [], [source_only_record])"
    using m2 by (simp add: e2 is_Exception_def)
  from 1 2 3 show ?thesis by simp
qed

text \<open>
  C3, as stated, fails. With the two lines \<open>[]\<close> and \<open>{bad\<close>, the task of the first record
  raises, yet \<open>main\<close> ends with the decode error of the second line and prints nothing.
  With the two lines \<open>[]\<close> and a record, completed in that order, \<open>main\<close> prints and
  re-raises the failure of the first task, and the record that completes after it is
  processed all the same: its output file is written.
\<close>

theorem task_failure_unreported_and_batch_not_aborted_counterexample:
  "sample_task (sample_env (Inr ''https://signed'')) (JList []) = Inl RecordShapeError \<and>
   main sample_loads (sample_task (sample_env (Inr ''https://signed''))) rev [''[]'', ''{bad'']
     = (Inl JSONDecodeError, [], [JList []]) \<and>
   main record_loads (sample_task (sample_env (Inr ''https://signed''))) id
     [''[]'', source_only_line]
     = (Inl RecordShapeError, [ErrorOccurred RecordShapeError], [JList [], source_only_record]) \<and>
   out_files (main_world (sample_env (Inr ''https://signed'')) record_loads id ''dolma_previews''
                [''[]'', source_only_line] empty_world) ''dolma_previews/b_k_pdf.html''
     = Some ''<a>https://signed</a>''"
proof -
  let ?c = "sample_env (Inr ''https://signed'')"
  have fd: "sample_task ?c (JList []) = Inl RecordShapeError"
    by (simp add: sample_task_def process_document_not_a_dict)
  have 1: "main sample_loads (sample_task ?c) rev [''[]'', ''{bad'']
             = (Inl JSONDecodeError, [], [JList []])"
    by (simp add: main_def sample_loads_def)
  have 2: "main record_loads (sample_task ?c) id [''[]'', source_only_line]
     = (Inl RecordShapeError, [ErrorOccurred RecordShapeError], [JList [], source_only_record])"
    unfolding main_def record_loads_dispatch by (simp add: fd is_Exception_def)
  obtain r w1 where pd:
    "process_document ?c source_only_record ''dolma_previews'' empty_world = (r, w1)"
    by (cases "process_document ?c source_only_record ''dolma_previews'' empty_world")
  have f: "out_files w1 ''dolma_previews/b_k_pdf.html'' = Some ''<a>https://signed</a>''"
    using source_only_record_processed[of empty_world] by (simp add: pd)
  have 3: "out_files (main_world ?c record_loads id ''dolma_previews''
                        [''[]'', source_only_line] empty_world)
             ''dolma_previews/b_k_pdf.html'' = Some ''<a>https://signed</a>''"
    unfolding main_world_def record_loads_dispatch
    by (simp add: process_document_not_a_dict pd f)
  from fd 1 2 3 show ?thesis by simp
qed

text \<open>
  C4, amended. \<open>json.loads\<close> is called in the dispatch loop of the driver, before the
  task of the line is submitted. When the non-empty lines before a line parse and that
  non-empty line does not, the dispatch loop ends with the decode error: \<open>main\<close> raises
  it and prints nothing, the records submitted are exactly those of the non-empty
  lines before, and the lines after are never read.
\<close>

theorem json_decode_error_ends_dispatch:
  assumes ok: "\<forall>l \<in> set before. l \<noteq> [] \<longrightarrow> loads l = Inr (parsed l)"
    and ne: "line \<noteq> []"
    and bad: "loads line = Inl e"
  shows "dispatch loads (before @ line # rest) []
           = (Some e, map parsed (filter (\<lambda>l. l \<noteq> []) before)) \<and>
         main loads future_result as_completed (before @ line # rest)
           = (Inl e, [], map parsed (filter (\<lambda>l. l \<noteq> []) before))"
proof -
  have "dispatch loads (before @ line # rest) []
          = (Some e, map parsed (filter (\<lambda>l. l \<noteq> []) before))"
    using dispatch_parsed_prefix[OF ok, of "line # rest" "[]"] ne bad by simp
  then show ?thesis by (simp add: main_def)
qed

theorem json_decode_error_ends_dispatch_witness:
  "dispatch sample_loads [''{}'', ''{bad'', ''{}''] [] = (Some JSONDecodeError, [JDict []]) \<and>
   main sample_loads sample_future_result rev [''{}'', ''{bad'', ''{}'']
     = (Inl JSONDecodeError, [], [JDict []])"
proof -
  have ok: "\<forall>l \<in> set [''{}'']. l \<noteq> [] \<longrightarrow> sample_loads l = Inr ((\<lambda>l. JDict []) l)"
    by (simp add: sample_loads_def)
  have ne: "''{bad'' \<noteq> []"
    by simp
  have bad: "sample_loads ''{bad'' = Inl JSONDecodeError"
    by (simp add: sample_loads_def)
  show ?thesis
    using json_decode_error_ends_dispatch[OF ok ne bad, where future_result = sample_future_result
             and as_completed = rev and rest = "[''{}'']"]
    by simp
qed

text \<open>
  C4, as stated, fails. Of three non-empty lines the second is not JSON: the decode error
  ends the dispatch loop and the whole run, only the first record has been submitted,
  the third line is never read, and nothing is printed: the error has not passed through
  the handler of the drain loop.
\<close>

theorem json_decode_error_is_raised_in_dispatch_counterexample:
  "dispatch sample_loads [''{}'', ''{bad'', ''{}''] [] = (Some JSONDecodeError, [JDict []]) \<and>
   main sample_loads sample_future_result rev [''{}'', ''{bad'', ''{}'']
     = (Inl JSONDecodeError, [], [JDict []])"
  by (simp add: main_def sample_loads_def)

text \<open>
  C5. The temporary PDF file is closed at line 58 only, after the loop, and the function
  has no handler: an exception raised before that line leaves the file open. Here the
  rasteriser raises for page 7; \<open>process_document\<close> raises, and the temporary file, which
  did not exist before, exists afterwards with the PDF bytes in it. On the record that
  completes, the file is gone.
\<close>

theorem temp_file_left_open_when_rasterization_raises:
  "fst (process_document (sample_env (Inr ''https://signed'')) bad_page_record
          ''dolma_previews'' empty_world) = Inl (Failure ''page out of range'') \<and>
   tmp_files empty_world 0 = None \<and>
   tmp_files (snd (process_document (sample_env (Inr ''https://signed'')) bad_page_record
          ''dolma_previews'' empty_world)) 0 = Some ''%PDF-1.4'' \<and>
   tmp_files (snd (process_document (sample_env (Inr ''https://signed'')) hello_record
          ''dolma_previews'' empty_world)) 0 = None"
proof -
  let ?c = "sample_env (Inr ''https://signed'')"
  have gb: "get_s3_bytes ?c (JStr ''s3://b/k.pdf'') = Inr ''%PDF-1.4''"
    by (simp add: sample_env_def)
  have it: "py_iter (JList [JList [JInt 0, JInt 3, JInt 7]]) = Inr [JList [JInt 0, JInt 3, JInt 7]]"
    by (simp add: py_iter_def)
  have rp: "render_pages ?c ''%PDF-1.4'' (JStr ''abc'') [JList [JInt 0, JInt 3, JInt 7]] []
              = Inl (Failure ''page out of range'')"
    by (simp add: render_page_int sample_env_def)
  have bad: "process_document ?c bad_page_record ''dolma_previews'' empty_world
               = (Inl (Failure ''page out of range''),
                  empty_world\<lparr>tmp_files := (tmp_files empty_world)(tmp_next empty_world \<mapsto> ''%PDF-1.4''),
                              tmp_next := Suc (tmp_next empty_world)\<rparr>)"
    by (rule process_document_loop_raises[OF bad_page_record_fields gb it rp])
  have rf: "record_fields hello_record
     = Inr (JStr ''d1'', JStr ''Hello World!!X'',
            JList [JList [JInt 0, JInt 5, JInt 1], JList [JInt 5, JInt 10, JInt 1],
                   JList [JInt 10, JInt 15, JInt 2]],
            JStr ''s3://b/k.pdf'')"
    using hello_record_fields by simp
  have it2: "py_iter (JList [JList [JInt 0, JInt 5, JInt 1], JList [JInt 5, JInt 10, JInt 1],
                   JList [JInt 10, JInt 15, JInt 2]])
            = Inr [JList [JInt 0, JInt 5, JInt 1], JList [JInt 5, JInt 10, JInt 1],
                   JList [JInt 10, JInt 15, JInt 2]]"
    by (simp add: py_iter_def)
  have lk: "fst (s3_link_of ?c (JStr ''s3://b/k.pdf'') empty_world) = Inr (Some ''https://signed'')"
    by (simp add: sample_link)
  have tr: "template_render ?c (JStr ''d1'')
              [\<lparr>page_num = JInt 1, page_text = ''<p>Hello</p>'', page_image = ''UklGRg==''\<rparr>,
               \<lparr>page_num = JInt 1, page_text = ''<p> Worl</p>'', page_image = ''UklGRg==''\<rparr>,
               \<lparr>page_num = JInt 2, page_text = ''<p>d!!X</p>'', page_image = ''UklGRg==''\<rparr>]
              (Some ''https://signed'') = Inr ''<p>Hello</p><p> Worl</p><p>d!!X</p><a>https://signed</a>''"
    by (simp add: sample_env_def)
  have ow: "open_w ?c (path_join ''dolma_previews'' (output_filename ''s3://b/k.pdf'')) = None"
    by (simp add: sample_env_def)
  from process_document_completes[OF rf gb it2 hello_pages lk tr ow] bad
  show ?thesis by (simp add: empty_world_def)
qed

text \<open>
  C6. Every call of \<open>generate_presigned_url\<close> makes exactly one call to the storage
  client, for \<open>get_object\<close> on the given bucket and key, with a lifetime of
  \<open>3600 * 24 * 7 - 100 = 604700\<close> seconds: one week less 100 seconds, strictly below
  the backend's maximum of 604800 seconds.
\<close>

theorem presigned_ttl_below_backend_maximum:
  "\<exists>r. presign_calls (snd (generate_presigned_url c bucket_name key_name w))
          = presign_calls w @ [r] \<and>
        ClientMethod r = ''get_object'' \<and> Bucket r = bucket_name \<and> Key r = key_name \<and>
        ExpiresIn r = 604700 \<and> ExpiresIn r = 7 * 24 * 3600 - 100 \<and>
        ExpiresIn r < backend_max_ttl \<and> backend_max_ttl - ExpiresIn r = 100"
  by (auto simp: generate_presigned_url_def Let_def backend_max_ttl_def split: sum.splits)

text \<open>
  C7. For a record whose \<open>Source-File\<close> is an \<open>s3://\<close> path, whose bytes are retrieved
  and whose spans all render: when the storage client raises \<open>NoCredentialsError\<close> or
  \<open>PartialCredentialsError\<close>, \<open>generate_presigned_url\<close> prints its line and returns
  \<open>None\<close> instead of raising, and \<open>process_document\<close> returns and writes the output
  file, holding the template's rendering of all the pages with no link (the template
  and the write not raising). When the client raises anything else,
  \<open>generate_presigned_url\<close> raises it, \<open>process_document\<close> raises it, and no output
  file is written.
\<close>

theorem credential_failure_omits_link_other_failure_is_fatal:
  assumes rf: "record_fields data = Inr (doc_id, text, ppn, JStr sf)"
    and s3: "startswith sf ''s3://''"
    and ps: "parse_s3_path c sf = Inr (bucket_name, key_name)"
    and gb: "get_s3_bytes c (JStr sf) = Inr bytes"
    and it: "py_iter ppn = Inr spans"
    and rp: "render_pages c bytes text spans [] = Inr pages"
    and fl: "s3_generate_presigned_url c
               \<lparr>ClientMethod = ''get_object'', Bucket = bucket_name, Key = key_name,
                ExpiresIn = 604700\<rparr> = Inl e"
    and tr: "template_render c doc_id pages None = Inr html"
    and ow: "open_w c (path_join out (output_filename sf)) = None"
  shows "if e = NoCredentialsError \<or> e = PartialCredentialsError
         then fst (generate_presigned_url c bucket_name key_name w) = Inr None \<and>
              stdout (snd (generate_presigned_url c bucket_name key_name w))
                = stdout w @ [CredentialsNotFound] \<and>
              fst (process_document c data out w) = Inr () \<and>
              out_files (snd (process_document c data out w))
                = (out_files w)(path_join out (output_filename sf) \<mapsto> html)
         else fst (generate_presigned_url c bucket_name key_name w) = Inl e \<and>
              fst (process_document c data out w) = Inl e \<and>
              out_files (snd (process_document c data out w)) = out_files w"
proof (cases "e = NoCredentialsError \<or> e = PartialCredentialsError")
  case True
  have g: "generate_presigned_url c bucket_name key_name w
           = (Inr None,
              w\<lparr>presign_calls := presign_calls w @
                     [\<lparr>ClientMethod = ''get_object'', Bucket = bucket_name, Key = key_name,
                       ExpiresIn = 604700\<rparr>],
                 stdout := stdout w @ [CredentialsNotFound]\<rparr>)"
    by (rule generate_presigned_url_credentials[OF fl True])
  have lk: "fst (s3_link_of c (JStr sf) w) = Inr None"
    using fst_s3_link_of_s3_path[OF s3 ps, of w] g by simp
  from process_document_completes[OF rf gb it rp lk tr ow] g True
  show ?thesis by simp
next
  case False
  have g: "fst (generate_presigned_url c bucket_name key_name w) = Inl e"
    using fl False by (simp add: fst_generate_presigned_url)
  have lk: "fst (s3_link_of c (JStr sf) w) = Inl e"
    using fst_s3_link_of_s3_path[OF s3 ps, of w] g by simp
  from process_document_link_raises[OF rf gb it rp lk] g False
  show ?thesis by simp
qed

theorem credential_failure_omits_link_other_failure_is_fatal_witness:
  "(fst (generate_presigned_url (sample_env (Inl NoCredentialsError)) ''b'' ''k.pdf'' empty_world)
      = Inr None \<and>
    stdout (snd (generate_presigned_url (sample_env (Inl NoCredentialsError)) ''b'' ''k.pdf''
      empty_world)) = [CredentialsNotFound] \<and>
    fst (process_document (sample_env (Inl NoCredentialsError)) hello_record
      ''dolma_previews'' empty_world) = Inr () \<and>
    out_files (snd (process_document (sample_env (Inl NoCredentialsError)) hello_record
      ''dolma_previews'' empty_world)) ''dolma_previews/b_k_pdf.html''
      = Some ''<p>Hello</p><p> Worl</p><p>d!!X</p>'') \<and>
   (fst (generate_presigned_url (sample_env (Inl (Failure ''AccessDenied''))) ''b'' ''k.pdf''
      empty_world) = Inl (Failure ''AccessDenied'') \<and>
    fst (process_document (sample_env (Inl (Failure ''AccessDenied''))) hello_record
      ''dolma_previews'' empty_world) = Inl (Failure ''AccessDenied'') \<and>
    out_files (snd (process_document (sample_env (Inl (Failure ''AccessDenied''))) hello_record
      ''dolma_previews'' empty_world)) ''dolma_previews/b_k_pdf.html'' = None)"
proof -
  have rf: "record_fields hello_record
     = Inr (JStr ''d1'', JStr ''Hello World!!X'',
            JList [JList [JInt 0, JInt 5, JInt 1], JList [JInt 5, JInt 10, JInt 1],
                   JList [JInt 10, JInt 15, JInt 2]],
            JStr ''s3://b/k.pdf'')"
    using hello_record_fields by simp
  have s3: "startswith ''s3://b/k.pdf'' ''s3://''"
    by (simp add: startswith_def)
  have ps: "parse_s3_path (sample_env r) ''s3://b/k.pdf'' = Inr (''b'', ''k.pdf'')" for r
    by (simp add: sample_env_def)
  have gb: "get_s3_bytes (sample_env r) (JStr ''s3://b/k.pdf'') = Inr ''%PDF-1.4''" for r
    by (simp add: sample_env_def)
  have it: "py_iter (JList [JList [JInt 0, JInt 5, JInt 1], JList [JInt 5, JInt 10, JInt 1],
                   JList [JInt 10, JInt 15, JInt 2]])
            = Inr [JList [JInt 0, JInt 5, JInt 1], JList [JInt 5, JInt 10, JInt 1],
                   JList [JInt 10, JInt 15, JInt 2]]"
    by (simp add: py_iter_def)
  have fl: "s3_generate_presigned_url (sample_env (Inl e))
               \<lparr>ClientMethod = ''get_object'', Bucket = ''b'', Key = ''k.pdf'',
                ExpiresIn = 604700\<rparr> = Inl e" for e
    by (simp add: sample_env_def)
  have tr: "template_render (sample_env r) (JStr ''d1'')
              [\<lparr>page_num = JInt 1, page_text = ''<p>Hello</p>'', page_image = ''UklGRg==''\<rparr>,
               \<lparr>page_num = JInt 1, page_text = ''<p> Worl</p>'', page_image = ''UklGRg==''\<rparr>,
               \<lparr>page_num = JInt 2, page_text = ''<p>d!!X</p>'', page_image = ''UklGRg==''\<rparr>]
              None = Inr ''<p>Hello</p><p> Worl</p><p>d!!X</p>''" for r
    by (simp add: sample_env_def)
  have ow: "open_w (sample_env r) (path_join ''dolma_previews'' (output_filename ''s3://b/k.pdf''))
              = None" for r
    by (simp add: sample_env_def)
  have pth: "path_join ''dolma_previews'' (output_filename ''s3://b/k.pdf'')
               = ''dolma_previews/b_k_pdf.html''"
    by (simp add: path_join_def output_filename_def startswith_def)
  show ?thesis
    using credential_failure_omits_link_other_failure_is_fatal
            [OF rf s3 ps gb it hello_pages fl tr ow, of NoCredentialsError empty_world]
          credential_failure_omits_link_other_failure_is_fatal
            [OF rf s3 ps gb it hello_pages fl tr ow, of "Failure ''AccessDenied''" empty_world]
    by (simp add: pth empty_world_def)
qed

text \<open>
  C8. For a record with no \<open>attributes\<close>, or whose \<open>attributes\<close> has no
  \<open>pdf_page_numbers\<close> or an empty one, and whose \<open>Source-File\<close> is a string whose bytes
  are retrieved: the spans resolve to the empty list, not to an error, and
  \<open>process_document\<close> returns and writes the output file, holding the template's
  rendering of zero pages (the link step, the template and the write not raising).
\<close>

theorem missing_or_empty_span_list_renders_zero_pages:
  assumes at: "map_of items ''attributes'' = None \<or>
               (\<exists>ais. map_of items ''attributes'' = Some (JDict ais) \<and>
                      (map_of ais ''pdf_page_numbers'' = None \<or>
                       map_of ais ''pdf_page_numbers'' = Some (JList [])))"
    and me: "map_of items ''metadata'' = Some (JDict mis)"
    and sf: "map_of mis ''Source-File'' = Some (JStr sf)"
    and gb: "get_s3_bytes c (JStr sf) = Inr bytes"
    and lk: "fst (s3_link_of c (JStr sf) w) = Inr link"
    and tr: "template_render c (case map_of items ''id'' of None \<Rightarrow> JNull | Some v \<Rightarrow> v)
               [] link = Inr html"
    and ow: "open_w c (path_join out (output_filename sf)) = None"
  shows "(\<exists>doc_id text. record_fields (JDict items) = Inr (doc_id, text, JList [], JStr sf)) \<and>
         fst (process_document c (JDict items) out w) = Inr () \<and>
         out_files (snd (process_document c (JDict items) out w))
           = (out_files w)(path_join out (output_filename sf) \<mapsto> html)"
proof -
  have rf: "record_fields (JDict items)
              = Inr (case map_of items ''id'' of None \<Rightarrow> JNull | Some v \<Rightarrow> v,
                     case map_of items ''text'' of None \<Rightarrow> JStr [] | Some v \<Rightarrow> v,
                     JList [], JStr sf)"
    using at me sf by (auto simp: record_fields_dict)
  have it: "py_iter (JList []) = Inr []"
    by (simp add: py_iter_def)
  have rp: "render_pages c bytes (case map_of items ''text'' of None \<Rightarrow> JStr [] | Some v \<Rightarrow> v)
              [] [] = Inr []"
    by simp
  from rf process_document_completes[OF rf gb it rp lk tr ow] show ?thesis by simp
qed

theorem missing_or_empty_span_list_renders_zero_pages_witness:
  "fst (process_document (sample_env (Inr ''https://signed''))
          (JDict [(''id'', JStr ''d2''), (''text'', JStr ''abc''),
                  (''metadata'', JDict [(''Source-File'', JStr ''s3://b/k.pdf'')])])
          ''dolma_previews'' empty_world) = Inr () \<and>
   out_files (snd (process_document (sample_env (Inr ''https://signed''))
          (JDict [(''id'', JStr ''d2''), (''text'', JStr ''abc''),
                  (''metadata'', JDict [(''Source-File'', JStr ''s3://b/k.pdf'')])])
          ''dolma_previews'' empty_world)) ''dolma_previews/b_k_pdf.html''
     = Some ''<a>https://signed</a>'' \<and>
   fst (process_document (sample_env (Inr ''https://signed''))
          (JDict [(''id'', JStr ''d2''), (''text'', JStr ''abc''),
                  (''attributes'', JDict [(''pdf_page_numbers'', JList [])]),
                  (''metadata'', JDict [(''Source-File'', JStr ''s3://b/k.pdf'')])])
          ''dolma_previews'' empty_world) = Inr () \<and>
   out_files (snd (process_document (sample_env (Inr ''https://signed''))
          (JDict [(''id'', JStr ''d2''), (''text'', JStr ''abc''),
                  (''attributes'', JDict [(''pdf_page_numbers'', JList [])]),
                  (''metadata'', JDict [(''Source-File'', JStr ''s3://b/k.pdf'')])])
          ''dolma_previews'' empty_world)) ''dolma_previews/b_k_pdf.html''
     = Some ''<a>https://signed</a>''"
proof -
  let ?c = "sample_env (Inr ''https://signed'')"
  let ?absent = "[(''id'', JStr ''d2''), (''text'', JStr ''abc''),
                  (''metadata'', JDict [(''Source-File'', JStr ''s3://b/k.pdf'')])]"
  let ?empty = "[(''id'', JStr ''d2''), (''text'', JStr ''abc''),
                  (''attributes'', JDict [(''pdf_page_numbers'', JList [])]),
                  (''metadata'', JDict [(''Source-File'', JStr ''s3://b/k.pdf'')])]"
  have at1: "map_of ?absent ''attributes'' = None \<or>
               (\<exists>ais. map_of ?absent ''attributes'' = Some (JDict ais) \<and>
                      (map_of ais ''pdf_page_numbers'' = None \<or>
                       map_of ais ''pdf_page_numbers'' = Some (JList [])))"
    by simp
  have at2: "map_of ?empty ''attributes'' = None \<or>
               (\<exists>ais. map_of ?empty ''attributes'' = Some (JDict ais) \<and>
                      (map_of ais ''pdf_page_numbers'' = None \<or>
                       map_of ais ''pdf_page_numbers'' = Some (JList [])))"
    by simp
  have me1: "map_of ?absent ''metadata'' = Some (JDict [(''Source-File'', JStr ''s3://b/k.pdf'')])"
    by simp
  have me2: "map_of ?empty ''metadata'' = Some (JDict [(''Source-File'', JStr ''s3://b/k.pdf'')])"
    by simp
  have sf: "map_of [(''Source-File'', JStr ''s3://b/k.pdf'')] ''Source-File''
              = Some (JStr ''s3://b/k.pdf'')"
    by simp
  have gb: "get_s3_bytes ?c (JStr ''s3://b/k.pdf'') = Inr ''%PDF-1.4''"
    by (simp add: sample_env_def)
  have lk: "fst (s3_link_of ?c (JStr ''s3://b/k.pdf'') empty_world) = Inr (Some ''https://signed'')"
    by (simp add: sample_link)
  have tr1: "template_render ?c (case map_of ?absent ''id'' of None \<Rightarrow> JNull | Some v \<Rightarrow> v)
               [] (Some ''https://signed'') = Inr ''<a>https://signed</a>''"
    by (simp add: sample_env_def)
  have tr2: "template_render ?c (case map_of ?empty ''id'' of None \<Rightarrow> JNull | Some v \<Rightarrow> v)
               [] (Some ''https://signed'') = Inr ''<a>https://signed</a>''"
    by (simp add: sample_env_def)
  have ow: "open_w ?c (path_join ''dolma_previews'' (output_filename ''s3://b/k.pdf'')) = None"
    by (simp add: sample_env_def)
  have pth: "path_join ''dolma_previews'' (output_filename ''s3://b/k.pdf'')
               = ''dolma_previews/b_k_pdf.html''"
    by (simp add: path_join_def output_filename_def startswith_def)
  show ?thesis
    using missing_or_empty_span_list_renders_zero_pages[OF at1 me1 sf gb lk tr1 ow]
          missing_or_empty_span_list_renders_zero_pages[OF at2 me2 sf gb lk tr2 ow]
    by (simp add: pth)
qed

text \<open>
  C9. The output file name is a function of \<open>Source-File\<close> alone, and exactly this one:
  every occurrence of the text \<open>s3://\<close> is removed (so a leading scheme marker is
  dropped), then every \<open>/\<close> and every \<open>.\<close> becomes \<open>_\<close> and every other character is
  kept, and \<open>.html\<close> is appended; the stem holds neither separator nor dot. The two
  different values \<open>s3://b/k.pdf\<close> and \<open>s3://b/k/pdf\<close> both give \<open>b_k_pdf.html\<close>; another
  scheme is not removed: \<open>gs://b/k.pdf\<close> gives \<open>gs:__b_k_pdf.html\<close>.
\<close>

theorem output_filename_sanitized_and_colliding:
  "output_filename source_file
     = map (\<lambda>x. if x = CHR ''/'' \<or> x = CHR ''.'' then CHR ''_'' else x)
         (str_replace source_file ''s3://'' []) @ ''.html'' \<and>
   output_filename (''s3://'' @ rest)
     = map (\<lambda>x. if x = CHR ''/'' \<or> x = CHR ''.'' then CHR ''_'' else x)
         (str_replace rest ''s3://'' []) @ ''.html'' \<and>
   output_filename ''s3://b/k.pdf'' = ''b_k_pdf.html'' \<and>
   output_filename ''s3://b/k/pdf'' = ''b_k_pdf.html'' \<and>
   ''s3://b/k.pdf'' \<noteq> ''s3://b/k/pdf'' \<and>
   output_filename ''gs://b/k.pdf'' = ''gs:__b_k_pdf.html'' \<and>
   (\<exists>stem. output_filename source_file = stem @ ''.html'' \<and>
           CHR ''/'' \<notin> set stem \<and> CHR ''.'' \<notin> set stem)"
proof -
  let ?f = "\<lambda>x. if x = CHR ''/'' \<or> x = CHR ''.'' then CHR ''_'' else x"
  have 0: "output_filename source_file
             = map ?f (str_replace source_file ''s3://'' []) @ ''.html''"
    by (rule output_filename_map)
  have p: "output_filename (''s3://'' @ rest)
             = map ?f (str_replace rest ''s3://'' []) @ ''.html''"
    by (simp add: output_filename_map)
  have 1: "output_filename ''s3://b/k.pdf'' = ''b_k_pdf.html''"
    by (simp add: output_filename_def)
  have 2: "output_filename ''s3://b/k/pdf'' = ''b_k_pdf.html''"
    by (simp add: output_filename_def)
  have 3: "output_filename ''gs://b/k.pdf'' = ''gs:__b_k_pdf.html''"
    by (simp add: output_filename_def)
  have "CHR ''/'' \<notin> set (map ?f (str_replace source_file ''s3://'' [])) \<and>
        CHR ''.'' \<notin> set (map ?f (str_replace source_file ''s3://'' []))"
    by auto
  with 0 have 4: "\<exists>stem. output_filename source_file = stem @ ''.html'' \<and>
           CHR ''/'' \<notin> set stem \<and> CHR ''.'' \<notin> set stem"
    by blast
  from 0 p 1 2 3 4 show ?thesis by simp
qed

text \<open>
  C10. For a record with no \<open>text\<close> key the text is the empty string: every span with
  integer bounds slices to the empty string, the loop renders one page per span, in
  order, each with the Markdown conversion of the empty string and its own rasterised
  image, and \<open>process_document\<close> returns and writes the template's rendering of those
  pages (the collaborators not raising). No malformed-record error arises.
\<close>

theorem missing_text_renders_pages_with_empty_text:
  assumes tx: "map_of items ''text'' = None"
    and at: "map_of items ''attributes'' = Some (JDict ais)"
    and pn: "map_of ais ''pdf_page_numbers''
               = Some (JList (map (\<lambda>(a, b, p). JList [JInt a, JInt b, p]) spans))"
    and me: "map_of items ''metadata'' = Some (JDict mis)"
    and sf: "map_of mis ''Source-File'' = Some (JStr sf)"
    and gb: "get_s3_bytes c (JStr sf) = Inr bytes"
    and md: "markdown c [] [''tables''] = Inr empty_html"
    and im: "\<forall>(a, b, p) \<in> set spans. render_pdf_to_base64webp c bytes p = Inr (img p)"
    and lk: "fst (s3_link_of c (JStr sf) w) = Inr link"
    and tr: "template_render c (case map_of items ''id'' of None \<Rightarrow> JNull | Some v \<Rightarrow> v)
               (map (\<lambda>(a, b, p). \<lparr>page_num = p, page_text = empty_html, page_image = img p\<rparr>)
                  spans) link = Inr html"
    and ow: "open_w c (path_join out (output_filename sf)) = None"
  shows "dict_get (JDict items) ''text'' (JStr []) = Inr (JStr []) \<and>
         (\<forall>(a, b, p) \<in> set spans. slice_json (JStr []) (JInt a) (JInt b) = Inr (JStr [])) \<and>
         render_pages c bytes (JStr []) (map (\<lambda>(a, b, p). JList [JInt a, JInt b, p]) spans) []
           = Inr (map (\<lambda>(a, b, p). \<lparr>page_num = p, page_text = empty_html, page_image = img p\<rparr>)
                    spans) \<and>
         fst (process_document c (JDict items) out w) = Inr () \<and>
         out_files (snd (process_document c (JDict items) out w))
           = (out_files w)(path_join out (output_filename sf) \<mapsto> html)"
proof -
  have 1: "dict_get (JDict items) ''text'' (JStr []) = Inr (JStr [])"
    using tx by (simp add: dict_get_def)
  have 2: "\<forall>(a, b, p) \<in> set spans. slice_json (JStr []) (JInt a) (JInt b) = Inr (JStr [])"
    by (simp add: slice_json_int py_slice_Nil split: prod.splits)
  have rf: "record_fields (JDict items)
              = Inr (case map_of items ''id'' of None \<Rightarrow> JNull | Some v \<Rightarrow> v,
                     JStr [], JList (map (\<lambda>(a, b, p). JList [JInt a, JInt b, p]) spans),
                     JStr sf)"
    using tx at pn me sf by (simp add: record_fields_dict)
  have pre: "\<forall>(a, b, p) \<in> set spans.
             markdown c (escape_keep_br (py_slice [] (Some a) (Some b))) [''tables'']
               = Inr ((\<lambda>s. empty_html) (escape_keep_br (py_slice [] (Some a) (Some b)))) \<and>
             render_pdf_to_base64webp c bytes p = Inr (img p)"
    using md im by (auto simp: py_slice_Nil)
  have rp: "render_pages c bytes (JStr []) (map (\<lambda>(a, b, p). JList [JInt a, JInt b, p]) spans) []
           = Inr (map (\<lambda>(a, b, p). \<lparr>page_num = p, page_text = empty_html, page_image = img p\<rparr>)
                    spans)"
    using render_pages_int_spans[OF pre, of "[]"] by simp
  have it: "py_iter (JList (map (\<lambda>(a, b, p). JList [JInt a, JInt b, p]) spans))
              = Inr (map (\<lambda>(a, b, p). JList [JInt a, JInt b, p]) spans)"
    by (simp add: py_iter_def)
  from 1 2 rp process_document_completes[OF rf gb it rp lk tr ow] show ?thesis by simp
qed

theorem missing_text_renders_pages_with_empty_text_witness:
  "fst (process_document (sample_env (Inr ''https://signed''))
          (JDict [(''id'', JStr ''d4''),
                  (''attributes'', JDict [(''pdf_page_numbers'',
                      JList [JList [JInt 0, JInt 5, JInt 1], JList [JInt 5, JInt 10, JInt 2]])]),
                  (''metadata'', JDict [(''Source-File'', JStr ''s3://b/k.pdf'')])])
          ''dolma_previews'' empty_world) = Inr () \<and>
   out_files (snd (process_document (sample_env (Inr ''https://signed''))
          (JDict [(''id'', JStr ''d4''),
                  (''attributes'', JDict [(''pdf_page_numbers'',
                      JList [JList [JInt 0, JInt 5, JInt 1], JList [JInt 5, JInt 10, JInt 2]])]),
                  (''metadata'', JDict [(''Source-File'', JStr ''s3://b/k.pdf'')])])
          ''dolma_previews'' empty_world)) ''dolma_previews/b_k_pdf.html''
     = Some ''<p></p><p></p><a>https://signed</a>''"
proof -
  let ?c = "sample_env (Inr ''https://signed'')"
  let ?items = "[(''id'', JStr ''d4''),
                  (''attributes'', JDict [(''pdf_page_numbers'',
                      JList [JList [JInt 0, JInt 5, JInt 1], JList [JInt 5, JInt 10, JInt 2]])]),
                  (''metadata'', JDict [(''Source-File'', JStr ''s3://b/k.pdf'')])]"
  have tx: "map_of ?items ''text'' = None"
    by simp
  have at: "map_of ?items ''attributes'' = Some (JDict [(''pdf_page_numbers'',
                      JList [JList [JInt 0, JInt 5, JInt 1], JList [JInt 5, JInt 10, JInt 2]])])"
    by simp
  have pn: "map_of [(''pdf_page_numbers'',
                      JList [JList [JInt 0, JInt 5, JInt 1], JList [JInt 5, JInt 10, JInt 2]])]
              ''pdf_page_numbers''
            = Some (JList (map (\<lambda>(a, b, p). JList [JInt a, JInt b, p])
                             [(0, 5, JInt 1), (5, 10, JInt 2)]))"
    by simp
  have me: "map_of ?items ''metadata'' = Some (JDict [(''Source-File'', JStr ''s3://b/k.pdf'')])"
    by simp
  have sf: "map_of [(''Source-File'', JStr ''s3://b/k.pdf'')] ''Source-File''
              = Some (JStr ''s3://b/k.pdf'')"
    by simp
  have gb: "get_s3_bytes ?c (JStr ''s3://b/k.pdf'') = Inr ''%PDF-1.4''"
    by (simp add: sample_env_def)
  have md: "markdown ?c [] [''tables''] = Inr ''<p></p>''"
    by (simp add: sample_env_def)
  have im: "\<forall>(a, b, p) \<in> set [(0::int, 5::int, JInt 1), (5, 10, JInt 2)].
              render_pdf_to_base64webp ?c ''%PDF-1.4'' p = Inr ''UklGRg==''"
    by (simp add: sample_env_def)
  have lk: "fst (s3_link_of ?c (JStr ''s3://b/k.pdf'') empty_world) = Inr (Some ''https://signed'')"
    by (simp add: sample_link)
  have tr: "template_render ?c (case map_of ?items ''id'' of None \<Rightarrow> JNull | Some v \<Rightarrow> v)
               (map (\<lambda>(a, b, p). \<lparr>page_num = p, page_text = ''<p></p>'',
                                   page_image = ''UklGRg==''\<rparr>)
                  [(0::int, 5::int, JInt 1), (5, 10, JInt 2)])
               (Some ''https://signed'') = Inr ''<p></p><p></p><a>https://signed</a>''"
    by (simp add: sample_env_def)
  have ow: "open_w ?c (path_join ''dolma_previews'' (output_filename ''s3://b/k.pdf'')) = None"
    by (simp add: sample_env_def)
  have pth: "path_join ''dolma_previews'' (output_filename ''s3://b/k.pdf'')
               = ''dolma_previews/b_k_pdf.html''"
    by (simp add: path_join_def output_filename_def startswith_def)
  show ?thesis
    using missing_text_renders_pages_with_empty_text[OF tx at pn me sf gb md im lk tr ow]
    by (simp add: pth)
qed

end
